theory Spec2Isabelle
  imports Main
begin

section \<open>DDL code generation of the SQL front end (src/box/sql/build.c)\<close>

text \<open>
  A shallow embedding of the parts of \<^verbatim>\<open>build.c\<close> that translate CREATE TABLE and
  DROP TABLE into VDBE programs: the list of saved records and the clean-up code of
  \<^verbatim>\<open>sql_finish_coding\<close>, the column, index and primary key callbacks of CREATE TABLE,
  \<^verbatim>\<open>sqlEndTable\<close>, the normalisation of CHECK expressions and \<^verbatim>\<open>sql_drop_table\<close>.

  Conventions. A C struct is a record; where two structs have a member of the same name the
  record fields carry a prefix (\<open>fd_\<close> field_def, \<open>kp_\<close> key_part, \<open>idx_\<close> index_def,
  \<open>sd_\<close> space_def, \<open>sp_\<close> space, \<open>fk_\<close> fk_constraint_def, \<open>ck_\<close> ck_constraint_def).
  \<^verbatim>\<open>struct index\<close>, \<^verbatim>\<open>index_def\<close> and \<^verbatim>\<open>key_def\<close> are flattened into one record.
  An array with its element count is a list. Memory allocation is assumed to succeed: the
  out-of-memory exits of the source are not modelled. Names arrive normalised
  (\<^verbatim>\<open>sql_name_from_token\<close>, \<^verbatim>\<open>sql_normalized_name_region_new\<close> are applied by the caller).
\<close>

subsection \<open>Characters and strings\<close>

definition NUL :: char where
  "NUL = CHR 0x00"

text \<open>\<^verbatim>\<open>isspace\<close> of the C locale: space, \<^verbatim>\<open>\t \n \v \f \r\<close>.\<close>

definition isspace :: "char \<Rightarrow> bool" where
  "isspace c \<longleftrightarrow> c \<in> set [CHR 0x20, CHR 0x09, CHR 0x0A, CHR 0x0B, CHR 0x0C, CHR 0x0D]"

text \<open>\<^verbatim>\<open>strncmp(name, pfx, strlen(pfx))\<close> is zero exactly when \<open>pfx\<close> starts \<open>name\<close>.\<close>

definition starts_with :: "string \<Rightarrow> string \<Rightarrow> bool" where
  "starts_with pfx name \<longleftrightarrow> take (length pfx) name = pfx"

text \<open>The decimal digits that \<^verbatim>\<open>%d\<close> prints for a non-negative number.\<close>

function dec_of_nat :: "nat \<Rightarrow> string" where
  "dec_of_nat n =
     (if n < 10 then [char_of (48 + n)]
      else dec_of_nat (n div 10) @ [char_of (48 + n mod 10)])"
  by pat_completeness auto
termination
  by (relation "measure (\<lambda>n. n)") auto

declare dec_of_nat.simps [simp del]

text \<open>
  What \<^verbatim>\<open>%d\<close> prints for an argument of type \<^verbatim>\<open>uint32_t\<close> with the value \<open>n\<close> (below
  \<open>2 ^ 32\<close>): the 32 bits are read as an \<^verbatim>\<open>int\<close>, so a value from \<open>2 ^ 31\<close> on is printed as
  the negative number \<open>n - 2 ^ 32\<close>.
\<close>

definition sprintf_d_uint32 :: "nat \<Rightarrow> string" where
  "sprintf_d_uint32 n =
     (if n < 2 ^ 31 then dec_of_nat n else CHR 0x2D # dec_of_nat (2 ^ 32 - n))"

subsection \<open>Whitespace normalisation of CHECK expressions\<close>

text \<open>
  \<^verbatim>\<open>*wptr = c\<close> at offset \<open>w\<close> of the destination buffer; \<open>None\<close> is a store outside the
  buffer.
\<close>

definition store_chr :: "char list \<Rightarrow> nat \<Rightarrow> char \<Rightarrow> char list option" where
  "store_chr buf w c = (if w < length buf then Some (buf[w := c]) else None)"

text \<open>
  The loop of \<^verbatim>\<open>trim_space_snprintf\<close>: \<open>buf\<close> and \<open>w\<close> are the destination and the offset
  of \<^verbatim>\<open>wptr\<close> in it, the last argument is what is left of \<^verbatim>\<open>str\<close>.
\<close>

fun trim_space_loop ::
  "char list \<Rightarrow> nat \<Rightarrow> char \<Rightarrow> bool \<Rightarrow> string \<Rightarrow> (char list \<times> nat) option" where
  "trim_space_loop buf w quote_type is_prev_chr_space [] = Some (buf, w)"
| "trim_space_loop buf w quote_type is_prev_chr_space (c # str) =
     (if quote_type = NUL then
        (if c = CHR 0x27 \<or> c = CHR 0x22 then
           (case store_chr buf w c of
              None \<Rightarrow> None
            | Some buf' \<Rightarrow> trim_space_loop buf' (w + 1) c False str)
         else if isspace c then
           (if \<not> is_prev_chr_space then
              (case store_chr buf w (CHR 0x20) of
                 None \<Rightarrow> None
               | Some buf' \<Rightarrow> trim_space_loop buf' (w + 1) quote_type True str)
            else trim_space_loop buf w quote_type True str)
         else
           (case store_chr buf w c of
              None \<Rightarrow> None
            | Some buf' \<Rightarrow> trim_space_loop buf' (w + 1) quote_type False str))
      else if c = quote_type then
        (case store_chr buf w c of
           None \<Rightarrow> None
         | Some buf' \<Rightarrow> trim_space_loop buf' (w + 1) NUL False str)
      else
        (case store_chr buf w c of
           None \<Rightarrow> None
         | Some buf' \<Rightarrow> trim_space_loop buf' (w + 1) quote_type False str))"

text \<open>
  \<^verbatim>\<open>trim_space_snprintf(wptr, str, str_len)\<close>. The result is the destination buffer after
  the call together with the number of bytes stored into it (the terminating NUL included).
\<close>

definition trim_space_snprintf :: "char list \<Rightarrow> string \<Rightarrow> (char list \<times> nat) option" where
  "trim_space_snprintf buf str =
     (case trim_space_loop buf 0 NUL False str of
        None \<Rightarrow> None
      | Some (buf', w) \<Rightarrow>
          (case store_chr buf' w NUL of
             None \<Rightarrow> None
           | Some buf'' \<Rightarrow> Some (buf'', w + 1)))"

text \<open>The characters the loop stores, in order (a projection of \<open>trim_space_loop\<close>).\<close>

fun trim_chars :: "char \<Rightarrow> bool \<Rightarrow> string \<Rightarrow> string" where
  "trim_chars quote_type is_prev_chr_space [] = []"
| "trim_chars quote_type is_prev_chr_space (c # str) =
     (if quote_type = NUL then
        (if c = CHR 0x27 \<or> c = CHR 0x22 then c # trim_chars c False str
         else if isspace c then
           (if \<not> is_prev_chr_space then CHR 0x20 # trim_chars quote_type True str
            else trim_chars quote_type True str)
         else c # trim_chars quote_type False str)
      else if c = quote_type then c # trim_chars NUL False str
      else c # trim_chars quote_type False str)"

text \<open>
  The normal form in the words of the specification: a quote character opens a region that
  is copied unchanged up to and including the next occurrence of the same character (or to
  the end of the text); outside such regions a run of whitespace becomes one space and every
  other character is copied.
\<close>

function ck_normalize_spec :: "string \<Rightarrow> string" where
  "ck_normalize_spec [] = []"
| "ck_normalize_spec (c # cs) =
     (if c = CHR 0x27 \<or> c = CHR 0x22 then
        c # takeWhile (\<lambda>x. x \<noteq> c) cs @
          (case dropWhile (\<lambda>x. x \<noteq> c) cs of
             [] \<Rightarrow> []
           | q # rest \<Rightarrow> q # ck_normalize_spec rest)
      else if isspace c then CHR 0x20 # ck_normalize_spec (dropWhile isspace cs)
      else c # ck_normalize_spec cs)"
  by pat_completeness auto
termination
proof (relation "measure length", goal_cases)
  case 1
  show ?case by simp
next
  case (2 c cs q rest)
  have "length (dropWhile (\<lambda>x. x \<noteq> c) cs) \<le> length cs"
    by (rule length_dropWhile_le)
  with 2 show ?case by simp
next
  case (3 c cs)
  have "length (dropWhile isspace cs) \<le> length cs"
    by (rule length_dropWhile_le)
  then show ?case by simp
next
  case 4
  show ?case by simp
qed

subsection \<open>Data model\<close>

datatype on_conflict_action =
    ON_CONFLICT_ACTION_NONE
  | ON_CONFLICT_ACTION_ROLLBACK
  | ON_CONFLICT_ACTION_ABORT
  | ON_CONFLICT_ACTION_FAIL
  | ON_CONFLICT_ACTION_IGNORE
  | ON_CONFLICT_ACTION_REPLACE
  | ON_CONFLICT_ACTION_DEFAULT

datatype field_type =
    FIELD_TYPE_ANY
  | FIELD_TYPE_UNSIGNED
  | FIELD_TYPE_STRING
  | FIELD_TYPE_NUMBER
  | FIELD_TYPE_INTEGER
  | FIELD_TYPE_BOOLEAN
  | FIELD_TYPE_VARBINARY
  | FIELD_TYPE_SCALAR

datatype sort_order = SORT_ORDER_ASC | SORT_ORDER_DESC

text \<open>
  Modelled from the spec: \<^verbatim>\<open>action_is_nullable\<close> is declared in another file; a column is
  nullable when no action is attached to its NULL constraint.
\<close>

definition action_is_nullable :: "on_conflict_action \<Rightarrow> bool" where
  "action_is_nullable nullable_action \<longleftrightarrow> nullable_action = ON_CONFLICT_ACTION_NONE"

text \<open>
  Modelled from the spec: \<^verbatim>\<open>COLL_NONE\<close>, the collation id of \<^verbatim>\<open>field_def_default\<close>, is
  declared in another file; no property below depends on its value.
\<close>

definition COLL_NONE :: nat where
  "COLL_NONE = 4294967295"

record field_def =
  fd_name :: string
  fd_type :: field_type
  fd_nullable_action :: on_conflict_action
  fd_is_nullable :: bool
  fd_default_value :: "string option"
  fd_coll_id :: nat

text \<open>
  A key part. \<open>coll\<close> is the address of the collation (\<^verbatim>\<open>struct coll *\<close>), \<open>None\<close> the null
  pointer.
\<close>

record key_part =
  fieldno :: nat
  kp_type :: field_type
  kp_nullable_action :: on_conflict_action
  kp_is_nullable :: bool
  kp_sort_order :: sort_order
  kp_coll_id :: nat
  coll :: "nat option"

record index_def =
  iid :: nat
  idx_name :: string
  idx_is_unique :: bool
  idx_parts :: "key_part list"

record fk_constraint_def =
  fk_name :: string
  fk_child_id :: int
  fk_parent_id :: int
  fk_links :: "(nat \<times> nat) list"
  fk_is_deferred :: bool
  fk_match :: string
  fk_on_delete :: string
  fk_on_update :: string

record space_def =
  sd_id :: nat
  sd_name :: string
  sd_engine_name :: string
  sd_fields :: "field_def list"
  sd_is_view :: bool

record space =
  sp_def :: space_def
  sp_index :: "index_def list"
  index_id_max :: nat
  sql_triggers :: "string list"
  sequence :: "nat option"
  child_fk_constraint :: "fk_constraint_def list"
  parent_fk_constraint :: "fk_constraint_def list"
  ck_constraint :: "string list"

text \<open>
  Expressions of a column list as the parser hands them over: a column name, a COLLATE
  operator over an expression, or any other expression.
\<close>

datatype Expr = TK_ID string | TK_COLLATE Expr string | TK_OTHER

fun sqlExprSkipCollate :: "Expr \<Rightarrow> Expr" where
  "sqlExprSkipCollate (TK_COLLATE e z) = sqlExprSkipCollate e"
| "sqlExprSkipCollate e = e"

datatype sql_index_type =
    SQL_INDEX_TYPE_NON_UNIQUE
  | SQL_INDEX_TYPE_UNIQUE
  | SQL_INDEX_TYPE_CONSTRAINT_UNIQUE
  | SQL_INDEX_TYPE_CONSTRAINT_PK

text \<open>Errors set by \<^verbatim>\<open>diag_set\<close>: the error code and the arguments of its message.\<close>

datatype box_error =
    ER_SQL string
  | ER_CREATE_SPACE string string
  | ER_DROP_SPACE string string
  | ER_NO_SUCH_SPACE string
  | ER_SPACE_FIELD_IS_DUPLICATE string
  | ER_SQL_COLUMN_COUNT_MAX string nat nat
  | ER_NULLABLE_PRIMARY string
  | ER_INDEX_DEF_UNSUPPORTED string
  | ER_UNSUPPORTED string string
  | ER_MODIFY_INDEX string string string
  | ER_SQL_PARSER_LIMIT string nat nat
  | ER_IDENTIFIER string
  | ER_NO_SUCH_COLLATION string
  | ER_NO_SUCH_FIELD_NAME string
  | ER_CREATE_FK_CONSTRAINT string string
  | ER_OTHER string

text \<open>A failed \<^verbatim>\<open>assert\<close> (in a build without assertions: undefined behaviour).\<close>

datatype fault = AssertionFailed string

subsection \<open>VDBE programs\<close>

datatype opcode =
    OP_Init | OP_Halt | OP_Goto | OP_TTransaction
  | OP_Integer | OP_Int64 | OP_Bool | OP_String8 | OP_Blob
  | OP_SCopy | OP_IntCopy | OP_MakeRecord
  | OP_SInsert | OP_SDelete
  | OP_IncMaxid | OP_NextSequenceId
  | OP_IteratorOpen | OP_Close | OP_NoConflict | OP_Found
  | OP_CheckViewReferences | OP_DropTrigger

text \<open>
  The P4 operand. The MsgPack encoders (\<^verbatim>\<open>sql_encode_table\<close>, \<^verbatim>\<open>sql_encode_index_parts\<close>,
  \<^verbatim>\<open>fk_constraint_encode_links\<close>, ...) are not in this file: a blob is represented by its
  bytes, which the environment below supplies. The text of an error message
  (\<^verbatim>\<open>tnt_errcode_desc\<close>) is not in this file either: a message is represented by its error
  code and its argument.
\<close>

datatype box_errcode = ER_SPACE_EXISTS | ER_CONSTRAINT_EXISTS | ER_NO_SUCH_CONSTRAINT

datatype p4_t =
    P4_NOTUSED
  | P4_STATIC string
  | P4_DYNAMIC string
  | P4_ERRMSG box_errcode string
  | P4_INT32 int
  | P4_INT64 int
  | P4_SPACEPTR int

text \<open>
  The P5 operand as the code sets it: not set, one of the two flags, or the error code of
  a halt.
\<close>

datatype p5_t = P5_NONE | OPFLAG_NCHANGE | OPFLAG_SYSTEMSP | P5_ERRCODE box_errcode

record VdbeOp =
  opcode :: opcode
  p1 :: int
  p2 :: int
  p3 :: int
  p4 :: p4_t
  p5 :: p5_t

text \<open>
  \<^verbatim>\<open>struct saved_record\<close>: a record inserted into a system space by the statement.
\<close>

record saved_record =
  space_id :: int
  reg_key :: int
  reg_key_count :: int
  insertion_opcode :: int

record fk_constraint_parse =
  fk_def :: fk_constraint_def
  selfref_cols :: "string list option"
  is_self_referenced :: bool

record ck_constraint_def =
  ck_name :: string
  ck_expr_str :: string
  ck_space_id :: "nat option"
  ck_language :: string

text \<open>
  \<^verbatim>\<open>struct Parse\<close> with the program under construction: \<open>aOp\<close> is \<^verbatim>\<open>pVdbe->aOp\<close> and
  \<^verbatim>\<open>pVdbe->nOp\<close> its length; \<open>record_list\<close>, \<open>new_fkey\<close> and \<open>new_check\<close> are rlists, first
  entry first; \<open>diag\<close> is the last error set; \<open>limit_column\<close> is
  \<^verbatim>\<open>db->aLimit[SQL_LIMIT_COLUMN]\<close>.
\<close>

record Parse =
  aOp :: "VdbeOp list"
  nMem :: int
  nTab :: int
  record_list :: "saved_record list"
  is_aborted :: bool
  diag :: "box_error option"
  new_space :: "space option"
  has_autoinc :: bool
  new_fkey :: "fk_constraint_parse list"
  new_check :: "ck_constraint_def list"
  check_count :: nat
  if_not_exist :: bool
  initiateTTrans :: bool
  limit_column :: nat

text \<open>
  What the code reads from other modules, taken as parameters: the collation cache
  (\<^verbatim>\<open>coll_by_name\<close>, and the \<^verbatim>\<open>struct coll\<close> address of a collation id), the checks
  \<^verbatim>\<open>identifier_check\<close> and \<^verbatim>\<open>index_def_is_valid\<close> (an error, or \<open>None\<close>), the MsgPack
  encoders (the encoded bytes, or \<open>None\<close> on failure), the user id, the space cache
  \<^verbatim>\<open>space_by_name\<close> and the code generator \<^verbatim>\<open>vdbe_code_drop_trigger\<close>.
\<close>

datatype msgpack_src =
    Table_opts space_def
  | Table_format space_def
  | Index_opts index_def
  | Index_parts "field_def list" index_def
  | Fk_links fk_constraint_def bool

record box_env =
  env_coll_by_name :: "string \<Rightarrow> nat option"
  env_coll_by_id :: "nat \<Rightarrow> nat option"
  env_identifier_check :: "string \<Rightarrow> box_error option"
  env_index_def_is_valid :: "index_def \<Rightarrow> string \<Rightarrow> box_error option"
  env_encode :: "msgpack_src \<Rightarrow> string option"
  env_uid :: int
  env_space_by_name :: "string \<Rightarrow> space option"
  env_code_drop_trigger :: "Parse \<Rightarrow> string \<Rightarrow> Parse"

subsection \<open>Errors, names, the primary key of a table\<close>

text \<open>\<^verbatim>\<open>diag_set(ClientError, ...); parse->is_aborted = true;\<close>\<close>

definition abort_with :: "box_error \<Rightarrow> Parse \<Rightarrow> Parse" where
  "abort_with e parse = parse\<lparr>diag := Some e, is_aborted := True\<rparr>"

text \<open>
  Modelled from the spec: \<^verbatim>\<open>BOX_NAME_MAX\<close> and \<^verbatim>\<open>BOX_INVALID_NAME_MAX\<close> are declared in
  another file; the maximum name length and the length of the excerpt put into the error.
\<close>

definition BOX_NAME_MAX :: nat where
  "BOX_NAME_MAX = 65000"

definition BOX_INVALID_NAME_MAX :: nat where
  "BOX_INVALID_NAME_MAX = 64"

text \<open>\<^verbatim>\<open>sqlCheckIdentifierName\<close>: the parse context and the return value (0 or -1).\<close>

definition sqlCheckIdentifierName :: "box_env \<Rightarrow> Parse \<Rightarrow> string \<Rightarrow> Parse \<times> int" where
  "sqlCheckIdentifierName env pParse zName =
     (if length zName > BOX_NAME_MAX then
        (abort_with (ER_IDENTIFIER (take BOX_INVALID_NAME_MAX zName)) pParse, - 1)
      else
        (case env_identifier_check env zName of
           Some e \<Rightarrow> (abort_with e pParse, - 1)
         | None \<Rightarrow> (pParse, 0)))"

definition sql_space_primary_key :: "space \<Rightarrow> index_def option" where
  "sql_space_primary_key space =
     (case sp_index space of
        [] \<Rightarrow> None
      | idx # rest \<Rightarrow> if iid idx \<noteq> 0 then None else Some idx)"

text \<open>The position of the first field of that name (the \<^verbatim>\<open>strcmp\<close> loops over \<^verbatim>\<open>def->fields\<close>).\<close>

fun field_index :: "field_def list \<Rightarrow> string \<Rightarrow> nat option" where
  "field_index [] z = None"
| "field_index (f # fs) z =
     (if z = fd_name f then Some 0 else map_option Suc (field_index fs z))"

subsection \<open>Columns\<close>

text \<open>
  Modelled from the spec: \<^verbatim>\<open>sql_ephemeral_space_new\<close> is defined in another file; it
  returns an empty draft of a table of the given name, with no id yet.
\<close>

definition sql_ephemeral_space_new :: "string \<Rightarrow> space" where
  "sql_ephemeral_space_new zName =
     \<lparr>sp_def = \<lparr>sd_id = 0, sd_name = zName, sd_engine_name = [], sd_fields = [],
                sd_is_view = False\<rparr>,
      sp_index = [], index_id_max = 0, sql_triggers = [], sequence = None,
      child_fk_constraint = [], parent_fk_constraint = [], ck_constraint = []\<rparr>"

text \<open>
  \<^verbatim>\<open>sqlStartTable\<close>; \<open>engine\<close> is the name of the default engine of the session. The result is
  the parse context and the returned draft, which the parser stores in
  \<^verbatim>\<open>create_table_def.new_space\<close>.
\<close>

definition sqlStartTable ::
  "box_env \<Rightarrow> Parse \<Rightarrow> string \<Rightarrow> string \<Rightarrow> Parse \<times> space option" where
  "sqlStartTable env pParse zName engine =
     (case sqlCheckIdentifierName env pParse zName of
        (pParse', rc) \<Rightarrow>
          if rc \<noteq> 0 then (pParse', None)
          else
            (let new_space' = sql_ephemeral_space_new zName;
                 new_space' = new_space'\<lparr>sp_def := (sp_def new_space')\<lparr>sd_engine_name := engine\<rparr>\<rparr>
             in (pParse', Some new_space')))"

definition sqlAddColumn :: "Parse \<Rightarrow> string \<Rightarrow> field_type \<Rightarrow> Parse" where
  "sqlAddColumn pParse z ftype =
     (case new_space pParse of
        None \<Rightarrow> pParse
      | Some space \<Rightarrow>
          (let def = sp_def space in
           if length (sd_fields def) + 1 > limit_column pParse then
             abort_with (ER_SQL_COLUMN_COUNT_MAX (sd_name def) (length (sd_fields def) + 1)
                           (limit_column pParse)) pParse
           else if \<exists>f \<in> set (sd_fields def). z = fd_name f then
             abort_with (ER_SPACE_FIELD_IS_DUPLICATE z) pParse
           else
             (let column_def =
                    \<lparr>fd_name = z, fd_type = ftype,
                     fd_nullable_action = ON_CONFLICT_ACTION_DEFAULT,
                     fd_is_nullable = True, fd_default_value = None,
                     fd_coll_id = COLL_NONE\<rparr>
              in pParse\<lparr>new_space :=
                   Some (space\<lparr>sp_def := def\<lparr>sd_fields := sd_fields def @ [column_def]\<rparr>\<rparr>)\<rparr>)))"

text \<open>
  Modelled from the spec: the table \<^verbatim>\<open>on_conflict_action_strs\<close> is defined in another
  file; it names the actions in the error message.
\<close>

fun on_conflict_action_strs :: "on_conflict_action \<Rightarrow> string" where
  "on_conflict_action_strs ON_CONFLICT_ACTION_NONE = ''none''"
| "on_conflict_action_strs ON_CONFLICT_ACTION_ROLLBACK = ''rollback''"
| "on_conflict_action_strs ON_CONFLICT_ACTION_ABORT = ''abort''"
| "on_conflict_action_strs ON_CONFLICT_ACTION_FAIL = ''fail''"
| "on_conflict_action_strs ON_CONFLICT_ACTION_IGNORE = ''ignore''"
| "on_conflict_action_strs ON_CONFLICT_ACTION_REPLACE = ''replace''"
| "on_conflict_action_strs ON_CONFLICT_ACTION_DEFAULT = ''default''"

definition sql_column_add_nullable_action :: "Parse \<Rightarrow> on_conflict_action \<Rightarrow> Parse" where
  "sql_column_add_nullable_action parser nullable_action =
     (case new_space parser of
        None \<Rightarrow> parser
      | Some space \<Rightarrow>
          (let def = sp_def space in
           if length (sd_fields def) < 1 then parser
           else
             (let field = sd_fields def ! (length (sd_fields def) - 1) in
              if fd_nullable_action field \<noteq> ON_CONFLICT_ACTION_DEFAULT \<and>
                 nullable_action \<noteq> fd_nullable_action field
              then
                abort_with
                  (ER_SQL (''NULL declaration for column '' @ [CHR 0x27] @ fd_name field @
                           [CHR 0x27] @ '' of table '' @ [CHR 0x27] @ sd_name def @
                           [CHR 0x27] @ '' has been already set to '' @ [CHR 0x27] @
                           on_conflict_action_strs (fd_nullable_action field) @ [CHR 0x27]))
                  parser
              else
                (let field' = field\<lparr>fd_nullable_action := nullable_action,
                                     fd_is_nullable := action_is_nullable nullable_action\<rparr>
                 in parser\<lparr>new_space :=
                      Some (space\<lparr>sp_def := def\<lparr>sd_fields :=
                        (sd_fields def)[length (sd_fields def) - 1 := field']\<rparr>\<rparr>)\<rparr>))))"

text \<open>
  \<^verbatim>\<open>field_def_create_for_pk\<close>: the parse context, the field and the return value.
\<close>

definition field_def_create_for_pk ::
  "Parse \<Rightarrow> field_def \<Rightarrow> string \<Rightarrow> Parse \<times> field_def \<times> int" where
  "field_def_create_for_pk parser field space_name =
     (if fd_nullable_action field \<noteq> ON_CONFLICT_ACTION_ABORT \<and>
         fd_nullable_action field \<noteq> ON_CONFLICT_ACTION_DEFAULT
      then (abort_with (ER_NULLABLE_PRIMARY space_name) parser, field, - 1)
      else if fd_nullable_action field = ON_CONFLICT_ACTION_DEFAULT
      then (parser, field\<lparr>fd_nullable_action := ON_CONFLICT_ACTION_ABORT,
                           fd_is_nullable := False\<rparr>, 0)
      else (parser, field, 0))"

subsection \<open>Indexes of a table under construction\<close>

text \<open>
  Removal of repeated columns from the key (the loop after \<^verbatim>\<open>index_fill_def\<close> in
  \<^verbatim>\<open>sql_create_index\<close>). \<open>dedup_find\<close> is the inner loop and returns \<open>j\<close> at its exit,
  \<open>dedup_loop\<close> is the outer loop over \<open>i\<close>; both work on the array \<open>parts\<close> in place.
\<close>

function dedup_find :: "key_part list \<Rightarrow> nat \<Rightarrow> nat \<Rightarrow> nat \<Rightarrow> nat" where
  "dedup_find parts i j new_part_count =
     (if j < new_part_count then
        (if fieldno (parts ! i) = fieldno (parts ! j) then j
         else dedup_find parts i (j + 1) new_part_count)
      else j)"
  by pat_completeness auto
termination
  by (relation "measure (\<lambda>(parts, i, j, new_part_count). new_part_count - j)") auto

declare dedup_find.simps [simp del]

function dedup_loop :: "key_part list \<Rightarrow> nat \<Rightarrow> nat \<Rightarrow> nat \<Rightarrow> key_part list \<times> nat" where
  "dedup_loop parts i new_part_count part_count =
     (if i < part_count then
        (if dedup_find parts i 0 new_part_count = new_part_count then
           dedup_loop (parts[new_part_count := parts ! i]) (i + 1) (new_part_count + 1)
             part_count
         else dedup_loop parts (i + 1) new_part_count part_count)
      else (parts, new_part_count))"
  by pat_completeness auto
termination
  by (relation "measure (\<lambda>(parts, i, new_part_count, part_count). part_count - i)") auto

declare dedup_loop.simps [simp del]

text \<open>
  The key parts after the loop: the first \<^verbatim>\<open>new_part_count\<close> entries of the array
  (\<^verbatim>\<open>key_def->part_count = new_part_count\<close>). A key has at least one part; for the empty
  array the source would set the count to 1, the model returns the empty list.
\<close>

definition remove_redundant_parts :: "key_part list \<Rightarrow> key_part list" where
  "remove_redundant_parts parts =
     (case dedup_loop parts 1 1 (length parts) of
        (parts', new_part_count) \<Rightarrow> take new_part_count parts')"

text \<open>
  Modelled from the spec: \<^verbatim>\<open>sql_resolve_self_reference\<close> is defined in another file. It
  resolves the column names of the expression against the table: a name of a column becomes a
  reference to its position, an unknown name is an error. The result is the parse context and
  the position when the expression under its COLLATE operators is a column.
\<close>

definition sql_resolve_self_reference ::
  "Parse \<Rightarrow> space_def \<Rightarrow> Expr \<Rightarrow> Parse \<times> nat option" where
  "sql_resolve_self_reference parse def expr =
     (case sqlExprSkipCollate expr of
        TK_ID z \<Rightarrow>
          (case field_index (sd_fields def) z of
             None \<Rightarrow> (abort_with (ER_NO_SUCH_FIELD_NAME z) parse, None)
           | Some i \<Rightarrow> (parse, Some i))
      | TK_COLLATE e z \<Rightarrow> (parse, None)
      | TK_OTHER \<Rightarrow> (parse, None))"

text \<open>
  Modelled from the spec: \<^verbatim>\<open>sql_get_coll_seq\<close> is defined in another file. It finds a
  collation by name, stores its id and returns the address of its \<^verbatim>\<open>struct coll\<close>; an unknown
  name is an error and gives the null pointer.
\<close>

definition sql_get_coll_seq ::
  "box_env \<Rightarrow> Parse \<Rightarrow> string \<Rightarrow> Parse \<times> nat \<times> nat option" where
  "sql_get_coll_seq env parser z =
     (case env_coll_by_name env z of
        None \<Rightarrow> (abort_with (ER_NO_SUCH_COLLATION z) parser, COLL_NONE, None)
      | Some cid \<Rightarrow> (parser, cid, env_coll_by_id env cid))"

text \<open>
  The collation of one entry of the column list in \<^verbatim>\<open>index_fill_def\<close>: the parse context
  and the collation id, or \<open>None\<close> at the jump to \<^verbatim>\<open>tnt_error\<close>. For a table under
  construction \<^verbatim>\<open>sql_column_collation\<close> reads the collation id of the field.
\<close>

definition index_part_coll_id ::
  "box_env \<Rightarrow> Parse \<Rightarrow> space_def \<Rightarrow> Expr \<Rightarrow> nat \<Rightarrow> Parse \<times> nat option" where
  "index_part_coll_id env parse def expr fno =
     (case expr of
        TK_COLLATE e z \<Rightarrow>
          (case sql_get_coll_seq env parse z of
             (parse', cid, c) \<Rightarrow>
               if c = None then (parse'\<lparr>is_aborted := True\<rparr>, None)
               else (parse', Some cid))
      | TK_ID z \<Rightarrow> (parse, Some (fd_coll_id (sd_fields def ! fno)))
      | TK_OTHER \<Rightarrow> (parse, Some (fd_coll_id (sd_fields def ! fno))))"

text \<open>
  The loop of \<^verbatim>\<open>index_fill_def\<close> over the column list: the parse context and the key parts,
  or \<open>None\<close> when the function leaves with -1. \<^verbatim>\<open>key_def_new\<close> (another file) attaches the
  \<^verbatim>\<open>struct coll\<close> of the collation id to the part.
\<close>

fun index_fill_parts ::
  "box_env \<Rightarrow> Parse \<Rightarrow> space_def \<Rightarrow> Expr list \<Rightarrow> Parse \<times> key_part list option" where
  "index_fill_parts env parse def [] = (parse, Some [])"
| "index_fill_parts env parse def (expr # rest) =
     (case sql_resolve_self_reference parse def expr of
        (parse1, column) \<Rightarrow>
          if is_aborted parse1 then (parse1, None)
          else
            (case column of
               None \<Rightarrow>
                 (abort_with (ER_UNSUPPORTED ''Tarantool'' ''functional indexes'') parse1, None)
             | Some fno \<Rightarrow>
                 (case index_part_coll_id env parse1 def expr fno of
                    (parse2, None) \<Rightarrow> (parse2, None)
                  | (parse2, Some cid) \<Rightarrow>
                      (let part =
                             \<lparr>fieldno = fno,
                              kp_type = fd_type (sd_fields def ! fno),
                              kp_nullable_action = fd_nullable_action (sd_fields def ! fno),
                              kp_is_nullable =
                                (fd_nullable_action (sd_fields def ! fno) =
                                   ON_CONFLICT_ACTION_NONE),
                              kp_sort_order = SORT_ORDER_ASC,
                              kp_coll_id = cid,
                              coll = env_coll_by_id env cid\<rparr>
                       in case index_fill_parts env parse2 def rest of
                            (parse3, None) \<Rightarrow> (parse3, None)
                          | (parse3, Some ps) \<Rightarrow> (parse3, Some (part # ps))))))"

definition index_fill_def ::
  "box_env \<Rightarrow> Parse \<Rightarrow> space_def \<Rightarrow> nat \<Rightarrow> string \<Rightarrow> Expr list \<Rightarrow> sql_index_type \<Rightarrow>
     Parse \<times> index_def option" where
  "index_fill_def env parse def iid' name expr_list idx_type =
     (case index_fill_parts env parse def expr_list of
        (parse', None) \<Rightarrow> (parse', None)
      | (parse', Some ps) \<Rightarrow>
          (parse', Some \<lparr>iid = iid', idx_name = name,
                         idx_is_unique = (idx_type \<noteq> SQL_INDEX_TYPE_NON_UNIQUE),
                         idx_parts = ps\<rparr>))"

definition constraint_is_named :: "string \<Rightarrow> bool" where
  "constraint_is_named name \<longleftrightarrow>
     \<not> starts_with ''sql_autoindex_'' name \<and>
     \<not> starts_with ''pk_unnamed_'' name \<and>
     \<not> starts_with ''unique_unnamed_'' name"

text \<open>
  The comparison loop over \<open>k\<close> in \<^verbatim>\<open>sql_create_index\<close>: the value of \<open>k\<close> at its exit, for the
  parts from position \<open>k\<close> on.
\<close>

fun key_parts_cmp :: "key_part list \<Rightarrow> key_part list \<Rightarrow> nat \<Rightarrow> nat" where
  "key_parts_cmp (a # as) (b # bs) k =
     (if fieldno a \<noteq> fieldno b then k
      else if coll a \<noteq> coll b then k
      else key_parts_cmp as bs (k + 1))"
| "key_parts_cmp as bs k = k"

text \<open>
  The loop of \<^verbatim>\<open>sql_create_index\<close> over the indexes the table already has. \<open>Some\<close> is the
  jump to \<^verbatim>\<open>exit_create_index\<close>, with the indexes as the loop leaves them; \<open>None\<close> is the
  normal end of the loop.
\<close>

fun redundant_index_loop ::
  "sql_index_type \<Rightarrow> index_def \<Rightarrow> index_def list \<Rightarrow> index_def list option" where
  "redundant_index_loop idx_type index [] = None"
| "redundant_index_loop idx_type index (existing_idx # rest) =
     (if length (idx_parts index) \<noteq> length (idx_parts existing_idx) then
        map_option ((#) existing_idx) (redundant_index_loop idx_type index rest)
      else if key_parts_cmp (idx_parts index) (idx_parts existing_idx) 0 \<noteq>
              length (idx_parts index) then
        map_option ((#) existing_idx) (redundant_index_loop idx_type index rest)
      else if idx_type = SQL_INDEX_TYPE_CONSTRAINT_PK \<and> iid existing_idx \<noteq> 0 \<and>
              \<not> constraint_is_named (idx_name existing_idx) then
        Some (existing_idx\<lparr>iid := 0\<rparr> # rest)
      else if idx_type = SQL_INDEX_TYPE_CONSTRAINT_UNIQUE \<and>
              \<not> constraint_is_named (idx_name index) then
        Some (existing_idx # rest)
      else map_option ((#) existing_idx) (redundant_index_loop idx_type index rest))"

definition table_add_index :: "space \<Rightarrow> index_def \<Rightarrow> space" where
  "table_add_index space index =
     (let idx_count = length (sp_index space);
          idxs =
            (if iid index = 0 \<and> idx_count \<noteq> 0
             then (index # tl (sp_index space)) @ [hd (sp_index space)]
             else sp_index space @ [index])
      in space\<lparr>sp_index := idxs, index_id_max := max (index_id_max space) (iid index)\<rparr>)"

text \<open>
  The name \<^verbatim>\<open>sql_create_index\<close> invents for the index of a constraint
  (\<^verbatim>\<open>sqlMPrintf(db, prefix, ..., idx_count + 1)\<close>, where \<^verbatim>\<open>idx_count\<close> is a \<^verbatim>\<open>uint32_t\<close>
  printed with \<^verbatim>\<open>%d\<close>).
\<close>

definition constraint_index_name ::
  "sql_index_type \<Rightarrow> string option \<Rightarrow> string \<Rightarrow> nat \<Rightarrow> string" where
  "constraint_index_name idx_type constraint_name space_name idx_count =
     (let prefix =
            (if idx_type = SQL_INDEX_TYPE_CONSTRAINT_UNIQUE
             then (if constraint_name = None then ''unique_unnamed_'' else ''unique_'')
             else (if constraint_name = None then ''pk_unnamed_'' else ''pk_''))
      in if constraint_name = None \<or> constraint_name = Some []
         then prefix @ space_name @ ''_'' @ sprintf_d_uint32 ((idx_count + 1) mod 2 ^ 32)
         else prefix @ the constraint_name @ ''_'' @ sprintf_d_uint32 ((idx_count + 1) mod 2 ^ 32))"

text \<open>
  The column list \<^verbatim>\<open>sql_create_index\<close> works on: the last column of the table when none
  is given; a list longer than the limit sets the error and goes on.
\<close>

definition index_col_list ::
  "Parse \<Rightarrow> space_def \<Rightarrow> Expr list option \<Rightarrow> Parse \<times> Expr list" where
  "index_col_list parse def col_list =
     (case col_list of
        None \<Rightarrow> (parse, [TK_ID (fd_name (sd_fields def ! (length (sd_fields def) - 1)))])
      | Some l \<Rightarrow>
          (if length l > limit_column parse
           then abort_with (ER_SQL_PARSER_LIMIT ''The number of columns in index''
                              (length l) (limit_column parse)) parse
           else parse, l))"

text \<open>
  \<^verbatim>\<open>sql_create_index\<close> for a constraint of the table under construction (\<^verbatim>\<open>tbl_name == NULL\<close>,
  the call made for UNIQUE and PRIMARY KEY inside CREATE TABLE); CREATE INDEX on an existing
  table is not modelled. \<open>col_list\<close>, \<open>idx_type\<close> and \<open>constraint_name\<close> are the members
  \<^verbatim>\<open>cols\<close>, \<^verbatim>\<open>idx_type\<close> and the name of \<^verbatim>\<open>parse->create_index_def\<close>; \<open>constraint_name\<close> is
  \<open>None\<close> when the name token is empty.
\<close>

definition sql_create_index ::
  "box_env \<Rightarrow> Parse \<Rightarrow> Expr list option \<Rightarrow> sql_index_type \<Rightarrow> string option \<Rightarrow>
     fault + Parse" where
  "sql_create_index env parse col_list idx_type constraint_name =
     (if is_aborted parse then Inr parse
      else
        (case new_space parse of
           None \<Rightarrow> Inr parse
         | Some space \<Rightarrow>
             (let def = sp_def space in
              if sd_is_view def then
                Inr (abort_with
                       (ER_MODIFY_INDEX (case constraint_name of None \<Rightarrow> [] | Some n \<Rightarrow> n)
                          (sd_name def) ''views can not be indexed'') parse)
              else if length (sd_fields def) = 0 then
                Inr (abort_with (ER_UNSUPPORTED ''SQL'' ''space without format'') parse)
              else if idx_type \<noteq> SQL_INDEX_TYPE_CONSTRAINT_UNIQUE \<and>
                      idx_type \<noteq> SQL_INDEX_TYPE_CONSTRAINT_PK then
                Inl (AssertionFailed ''idx_type'')
              else
                (let name = constraint_index_name idx_type constraint_name (sd_name def)
                              (length (sp_index space))
                 in case sqlCheckIdentifierName env parse name of
                      (parse1, rc) \<Rightarrow>
                        if rc \<noteq> 0 then Inr parse1
                        else
                          (case index_col_list parse1 def col_list of
                             (parse2, col_list') \<Rightarrow>
                               (let iid' = (if idx_type \<noteq> SQL_INDEX_TYPE_CONSTRAINT_PK
                                            then index_id_max space + 1 else 0)
                                in case index_fill_def env parse2 def iid' name col_list'
                                          idx_type of
                                     (parse3, None) \<Rightarrow> Inr parse3
                                   | (parse3, Some index0) \<Rightarrow>
                                       (let index =
                                              index0\<lparr>idx_parts :=
                                                remove_redundant_parts (idx_parts index0)\<rparr>
                                        in case env_index_def_is_valid env index (sd_name def) of
                                             Some e \<Rightarrow> Inr (parse3\<lparr>diag := Some e\<rparr>)
                                           | None \<Rightarrow>
                                               (case redundant_index_loop idx_type index
                                                       (sp_index space) of
                                                  Some idxs \<Rightarrow>
                                                    Inr (parse3\<lparr>new_space :=
                                                           Some (space\<lparr>sp_index := idxs\<rparr>)\<rparr>)
                                                | None \<Rightarrow>
                                                    Inr (parse3\<lparr>new_space :=
                                                           Some (table_add_index space
                                                                   index)\<rparr>)))))))))"

text \<open>
  The loop of \<^verbatim>\<open>sqlAddPrimaryKey\<close> over the column list: the value of \<open>iCol\<close> at its end
  (\<open>None\<close> is -1), or the error of an entry that is not a column name.
\<close>

fun pk_columns_loop ::
  "field_def list \<Rightarrow> Expr list \<Rightarrow> nat option \<Rightarrow> box_error + nat option" where
  "pk_columns_loop fs [] iCol = Inr iCol"
| "pk_columns_loop fs (e # es) iCol =
     (case sqlExprSkipCollate e of
        TK_ID z \<Rightarrow>
          pk_columns_loop fs es
            (case field_index fs z of None \<Rightarrow> iCol | Some idx \<Rightarrow> Some idx)
      | TK_COLLATE e' z \<Rightarrow> Inl (ER_INDEX_DEF_UNSUPPORTED ''Expressions'')
      | TK_OTHER \<Rightarrow> Inl (ER_INDEX_DEF_UNSUPPORTED ''Expressions''))"

text \<open>
  The last loop of \<^verbatim>\<open>sqlAddPrimaryKey\<close>: every field of the key becomes NOT NULL; the
  return value of \<^verbatim>\<open>field_def_create_for_pk\<close> is ignored, as in the source.
\<close>

fun pk_fields_loop ::
  "Parse \<Rightarrow> field_def list \<Rightarrow> string \<Rightarrow> key_part list \<Rightarrow> Parse \<times> field_def list" where
  "pk_fields_loop parse fs space_name [] = (parse, fs)"
| "pk_fields_loop parse fs space_name (part # rest) =
     (case field_def_create_for_pk parse (fs ! fieldno part) space_name of
        (parse', field', rc) \<Rightarrow>
          pk_fields_loop parse' (fs[fieldno part := field']) space_name rest)"

text \<open>
  The first part of \<^verbatim>\<open>sqlAddPrimaryKey\<close>: \<open>iCol\<close> (\<open>None\<close> is -1) and \<open>nTerm\<close>, or the error.
\<close>

definition pk_columns ::
  "space \<Rightarrow> Expr list option \<Rightarrow> box_error + (nat option \<times> nat)" where
  "pk_columns space pList =
     (case pList of
        None \<Rightarrow>
          Inr (if length (sd_fields (sp_def space)) = 0 then None
               else Some (length (sd_fields (sp_def space)) - 1), 1)
      | Some l \<Rightarrow>
          (case pk_columns_loop (sd_fields (sp_def space)) l None of
             Inl e \<Rightarrow> Inl e
           | Inr iCol \<Rightarrow> Inr (iCol, length l)))"

text \<open>
  The end of \<^verbatim>\<open>sqlAddPrimaryKey\<close>, from the lookup of the primary key index on.
\<close>

definition pk_finish :: "Parse \<Rightarrow> fault + Parse" where
  "pk_finish p =
     (case new_space p of
        None \<Rightarrow> Inl (AssertionFailed ''pk != NULL'')
      | Some space \<Rightarrow>
          (case sql_space_primary_key space of
             None \<Rightarrow> Inl (AssertionFailed ''pk != NULL'')
           | Some pk \<Rightarrow>
               (case pk_fields_loop p (sd_fields (sp_def space)) (sd_name (sp_def space))
                       (idx_parts pk) of
                  (p', fs') \<Rightarrow>
                    Inr (p'\<lparr>new_space :=
                           Some (space\<lparr>sp_def := (sp_def space)\<lparr>sd_fields := fs'\<rparr>\<rparr>)\<rparr>))))"

text \<open>
  \<^verbatim>\<open>sqlAddPrimaryKey\<close>; \<open>pList\<close> and \<open>constraint_name\<close> are the column list and the name of
  \<^verbatim>\<open>pParse->create_index_def\<close>, whose \<^verbatim>\<open>idx_type\<close> is the primary key constraint.
\<close>

definition sqlAddPrimaryKey ::
  "box_env \<Rightarrow> Parse \<Rightarrow> Expr list option \<Rightarrow> string option \<Rightarrow> fault + Parse" where
  "sqlAddPrimaryKey env pParse pList constraint_name =
     (case new_space pParse of
        None \<Rightarrow> Inr pParse
      | Some space \<Rightarrow>
          if sql_space_primary_key space \<noteq> None then
            Inr (abort_with (ER_CREATE_SPACE (sd_name (sp_def space))
                               ''primary key has been already declared'') pParse)
          else
            (case pk_columns space pList of
               Inl e \<Rightarrow> Inr (abort_with e pParse)
             | Inr (iCol, nTerm) \<Rightarrow>
                 if nTerm = 1 \<and> iCol \<noteq> None \<and>
                    fd_type (sd_fields (sp_def space) ! the iCol) = FIELD_TYPE_INTEGER
                 then
                   (case sql_create_index env pParse
                           (Some [TK_ID (fd_name (sd_fields (sp_def space) ! the iCol))])
                           SQL_INDEX_TYPE_CONSTRAINT_PK constraint_name of
                      Inl f \<Rightarrow> Inl f
                    | Inr p \<Rightarrow> pk_finish p)
                 else if has_autoinc pParse then
                   Inr (abort_with
                          (ER_CREATE_SPACE (sd_name (sp_def space))
                             (''AUTOINCREMENT is only allowed on an INTEGER PRIMARY '' @
                              ''KEY or INT PRIMARY KEY'')) pParse)
                 else
                   (case sql_create_index env pParse pList
                           SQL_INDEX_TYPE_CONSTRAINT_PK constraint_name of
                      Inl f \<Rightarrow> Inl f
                    | Inr p \<Rightarrow> if is_aborted p then Inr p else pk_finish p)))"

subsection \<open>Emitting instructions\<close>

text \<open>
  Modelled from the spec: the ids of the system spaces, the halt code
  \<^verbatim>\<open>SQL_TARANTOOL_ERROR\<close> and the subtype \<^verbatim>\<open>SQL_SUBTYPE_MSGPACK\<close> are declared in other files.
  The properties below use the names only, and that the ids differ from each other.
\<close>

definition BOX_SPACE_ID :: int where "BOX_SPACE_ID = 280"
definition BOX_SEQUENCE_ID :: int where "BOX_SEQUENCE_ID = 284"
definition BOX_INDEX_ID :: int where "BOX_INDEX_ID = 288"
definition BOX_SPACE_SEQUENCE_ID :: int where "BOX_SPACE_SEQUENCE_ID = 340"
definition BOX_FK_CONSTRAINT_ID :: int where "BOX_FK_CONSTRAINT_ID = 356"
definition BOX_CK_CONSTRAINT_ID :: int where "BOX_CK_CONSTRAINT_ID = 364"
definition SQL_TARANTOOL_ERROR :: int where "SQL_TARANTOOL_ERROR = 21"
definition SQL_SUBTYPE_MSGPACK :: int where "SQL_SUBTYPE_MSGPACK = 77"
definition LLONG_MAX :: int where "LLONG_MAX = 9223372036854775807"

text \<open>
  Modelled from the spec: the instruction builder (\<^verbatim>\<open>sqlVdbeAddOp0\<close> ... \<^verbatim>\<open>sqlVdbeAddOp4\<close>,
  \<^verbatim>\<open>sqlVdbeChangeP2\<close>, \<^verbatim>\<open>sqlVdbeChangeP5\<close>, \<^verbatim>\<open>sqlVdbeGoto\<close>) is defined in another file. It is
  append-only: an instruction is added at the end of the program, operands not given are 0;
  \<^verbatim>\<open>sqlVdbeChangeP5\<close> sets P5 of the last instruction and \<^verbatim>\<open>sqlVdbeChangeP2\<close> sets P2 of the
  instruction at an address, which the source asserts to be inside the program (outside it
  the model leaves the program as it is).
\<close>

definition nOp :: "Parse \<Rightarrow> int" where
  "nOp parse = int (length (aOp parse))"

definition sqlVdbeAddOp4 ::
  "Parse \<Rightarrow> opcode \<Rightarrow> int \<Rightarrow> int \<Rightarrow> int \<Rightarrow> p4_t \<Rightarrow> Parse" where
  "sqlVdbeAddOp4 parse op a b c d =
     parse\<lparr>aOp := aOp parse @ [\<lparr>opcode = op, p1 = a, p2 = b, p3 = c, p4 = d, p5 = P5_NONE\<rparr>]\<rparr>"

definition sqlVdbeAddOp3 :: "Parse \<Rightarrow> opcode \<Rightarrow> int \<Rightarrow> int \<Rightarrow> int \<Rightarrow> Parse" where
  "sqlVdbeAddOp3 parse op a b c = sqlVdbeAddOp4 parse op a b c P4_NOTUSED"

definition sqlVdbeAddOp2 :: "Parse \<Rightarrow> opcode \<Rightarrow> int \<Rightarrow> int \<Rightarrow> Parse" where
  "sqlVdbeAddOp2 parse op a b = sqlVdbeAddOp3 parse op a b 0"

definition sqlVdbeAddOp1 :: "Parse \<Rightarrow> opcode \<Rightarrow> int \<Rightarrow> Parse" where
  "sqlVdbeAddOp1 parse op a = sqlVdbeAddOp3 parse op a 0 0"

definition sqlVdbeAddOp0 :: "Parse \<Rightarrow> opcode \<Rightarrow> Parse" where
  "sqlVdbeAddOp0 parse op = sqlVdbeAddOp3 parse op 0 0 0"

definition sqlVdbeGoto :: "Parse \<Rightarrow> int \<Rightarrow> Parse" where
  "sqlVdbeGoto parse addr = sqlVdbeAddOp3 parse OP_Goto 0 addr 0"

definition sqlVdbeChangeP2 :: "Parse \<Rightarrow> int \<Rightarrow> int \<Rightarrow> Parse" where
  "sqlVdbeChangeP2 parse addr val =
     (if 0 \<le> addr \<and> nat addr < length (aOp parse)
      then parse\<lparr>aOp := (aOp parse)[nat addr := (aOp parse ! nat addr)\<lparr>p2 := val\<rparr>]\<rparr>
      else parse)"

definition sqlVdbeChangeP5 :: "Parse \<Rightarrow> p5_t \<Rightarrow> Parse" where
  "sqlVdbeChangeP5 parse val =
     (if aOp parse = [] then parse
      else parse\<lparr>aOp := butlast (aOp parse) @ [(last (aOp parse))\<lparr>p5 := val\<rparr>]\<rparr>)"

text \<open>
  Modelled from the spec: the register allocator (\<^verbatim>\<open>sqlGetTempRange\<close>,
  \<^verbatim>\<open>sqlReleaseTempRange\<close>) is defined in another file. The model takes fresh registers above
  the high-water mark \<^verbatim>\<open>nMem\<close> and releases nothing; no property below depends on register
  numbers. The result is the parse context and the first register of the range.
\<close>

definition sqlGetTempRange :: "Parse \<Rightarrow> int \<Rightarrow> Parse \<times> int" where
  "sqlGetTempRange parse nReg = (parse\<lparr>nMem := nMem parse + nReg\<rparr>, nMem parse + 1)"

subsection \<open>The list of saved records and the clean-up code\<close>

text \<open>\<^verbatim>\<open>save_record\<close>: \<^verbatim>\<open>rlist_add_entry\<close> puts the new record at the head of the list.\<close>

definition save_record :: "Parse \<Rightarrow> int \<Rightarrow> int \<Rightarrow> int \<Rightarrow> int \<Rightarrow> Parse" where
  "save_record parser sid rkey rcount ins =
     parser\<lparr>record_list :=
       \<lparr>space_id = sid, reg_key = rkey, reg_key_count = rcount, insertion_opcode = ins\<rparr>
         # record_list parser\<rparr>"

text \<open>
  The \<^verbatim>\<open>rlist_foreach_entry\<close> loop of \<^verbatim>\<open>sql_finish_coding\<close> over the records left in the
  list.
\<close>

fun undo_loop :: "Parse \<Rightarrow> saved_record list \<Rightarrow> Parse" where
  "undo_loop parse [] = parse"
| "undo_loop parse (record # rest) =
     (let record_reg = nMem parse + 1;
          parse = parse\<lparr>nMem := record_reg\<rparr>;
          parse = sqlVdbeAddOp3 parse OP_MakeRecord (reg_key record) (reg_key_count record)
                    record_reg;
          parse = sqlVdbeAddOp2 parse OP_SDelete (space_id record) record_reg;
          parse = sqlVdbeChangeP2 parse (insertion_opcode record) (nOp parse)
      in undo_loop parse rest)"

text \<open>
  \<^verbatim>\<open>sql_finish_coding\<close> for a statement without factored-out constant expressions
  (\<^verbatim>\<open>pConstExpr == NULL\<close>, as in the DDL statements modelled here); the final
  \<^verbatim>\<open>sqlVdbeMakeReady\<close> is outside the model.
\<close>

definition sql_finish_coding :: "Parse \<Rightarrow> Parse" where
  "sql_finish_coding parse_context =
     (let parse = sqlVdbeAddOp0 parse_context OP_Halt;
          parse =
            (case record_list parse of
               [] \<Rightarrow> parse
             | record # rest \<Rightarrow>
                 (let parse = parse\<lparr>record_list := rest\<rparr>;
                      parse = sqlVdbeChangeP2 parse (insertion_opcode record) (nOp parse);
                      parse = undo_loop parse rest
                  in sqlVdbeAddOp1 parse OP_Halt SQL_TARANTOOL_ERROR))
      in if is_aborted parse then parse
         else
           (let last_instruction = nOp parse;
                parse = (if initiateTTrans parse then sqlVdbeAddOp0 parse OP_TTransaction
                         else parse)
            in if initiateTTrans parse
               then sqlVdbeGoto (sqlVdbeChangeP2 parse 0 last_instruction) 1
               else parse))"

subsection \<open>Running a program\<close>

text \<open>
  Modelled from the spec: the virtual machine is defined in another file. The model keeps
  its control flow only. \<^verbatim>\<open>OP_Halt\<close> stops with P1 as the result code; \<^verbatim>\<open>OP_Goto\<close> and
  \<^verbatim>\<open>OP_Init\<close> continue at P2; \<^verbatim>\<open>OP_SInsert\<close> continues at P2 when the insertion fails (the
  clean-up code of \<^verbatim>\<open>sql_finish_coding\<close> is reached this way: "Delete entry from %s if
  CREATE TABLE fails") and at the next instruction otherwise; the presence tests
  \<^verbatim>\<open>OP_NoConflict\<close> and \<^verbatim>\<open>OP_Found\<close> continue at P2 or at the next instruction; every other
  instruction continues at the next one. \<open>fails\<close> and \<open>jumps\<close> say, by address, which
  insertions fail and which tests jump. The result is the list of the instructions executed
  and the result code; \<open>None\<close> when the fuel runs out or control leaves the program.
\<close>

fun vdbe_exec ::
  "nat \<Rightarrow> (nat \<Rightarrow> bool) \<Rightarrow> (nat \<Rightarrow> bool) \<Rightarrow> VdbeOp list \<Rightarrow> nat \<Rightarrow> (VdbeOp list \<times> int) option" where
  "vdbe_exec 0 fails jumps prog pc = None"
| "vdbe_exec (Suc fuel) fails jumps prog pc =
     (if pc \<ge> length prog then None
      else
        (let op = prog ! pc in
         if opcode op = OP_Halt then Some ([op], p1 op)
         else
           (let next =
                  (if opcode op = OP_Goto \<or> opcode op = OP_Init then nat (p2 op)
                   else if opcode op = OP_SInsert then
                     (if fails pc then nat (p2 op) else pc + 1)
                   else if opcode op = OP_NoConflict \<or> opcode op = OP_Found then
                     (if jumps pc then nat (p2 op) else pc + 1)
                   else pc + 1)
            in case vdbe_exec fuel fails jumps prog next of
                 None \<Rightarrow> None
               | Some (trace, rc) \<Rightarrow> Some (op # trace, rc))))"

subsection \<open>The end of CREATE TABLE\<close>

definition vdbe_emit_open_cursor :: "Parse \<Rightarrow> int \<Rightarrow> int \<Rightarrow> int \<Rightarrow> Parse" where
  "vdbe_emit_open_cursor parse_context cursor index_id sid =
     sqlVdbeAddOp4 parse_context OP_IteratorOpen cursor index_id 0 (P4_SPACEPTR sid)"

definition vdbe_emit_halt_with_presence_test ::
  "Parse \<Rightarrow> int \<Rightarrow> int \<Rightarrow> int \<Rightarrow> int \<Rightarrow> box_errcode \<Rightarrow> string \<Rightarrow> bool \<Rightarrow> opcode \<Rightarrow> Parse" where
  "vdbe_emit_halt_with_presence_test parser sid index_id key_reg key_len
       tarantool_error_code error_arg no_error cond_opcode =
     (let cursor = nTab parser;
          parser = parser\<lparr>nTab := nTab parser + 1\<rparr>;
          parser = vdbe_emit_open_cursor parser cursor index_id sid;
          parser = sqlVdbeChangeP5 parser OPFLAG_SYSTEMSP;
          label = nOp parser;
          parser = sqlVdbeAddOp4 parser cond_opcode cursor (label + 3) key_reg
                     (P4_INT32 key_len);
          parser =
            (if no_error then sqlVdbeAddOp0 parser OP_Halt
             else sqlVdbeChangeP5
                    (sqlVdbeAddOp4 parser OP_Halt SQL_TARANTOOL_ERROR 0 0
                       (P4_ERRMSG tarantool_error_code error_arg))
                    (P5_ERRCODE tarantool_error_code))
      in sqlVdbeAddOp1 parser OP_Close cursor)"

text \<open>\<^verbatim>\<open>getNewSpaceId\<close>: the parse context and the register of the new id.\<close>

definition getNewSpaceId :: "Parse \<Rightarrow> Parse \<times> int" where
  "getNewSpaceId pParse =
     (let iRes = nMem pParse + 1;
          pParse = pParse\<lparr>nMem := iRes\<rparr>
      in (sqlVdbeAddOp1 pParse OP_IncMaxid iRes, iRes))"

definition vdbe_emit_create_index ::
  "box_env \<Rightarrow> Parse \<Rightarrow> space_def \<Rightarrow> index_def \<Rightarrow> int \<Rightarrow> int \<Rightarrow> Parse" where
  "vdbe_emit_create_index env parse def idx_def space_id_reg index_id_reg =
     (let entry_reg = nMem parse + 1;
          tuple_reg = entry_reg + 6;
          parse = parse\<lparr>nMem := tuple_reg\<rparr>
      in case env_encode env (Index_opts idx_def) of
           None \<Rightarrow> parse\<lparr>is_aborted := True\<rparr>
         | Some index_opts \<Rightarrow>
             (case env_encode env (Index_parts (sd_fields def) idx_def) of
                None \<Rightarrow> parse\<lparr>is_aborted := True\<rparr>
              | Some index_parts \<Rightarrow>
                  (let parse =
                         (if new_space parse \<noteq> None then
                            sqlVdbeAddOp2
                              (sqlVdbeAddOp2 parse OP_SCopy space_id_reg entry_reg)
                              OP_Integer (int (iid idx_def)) (entry_reg + 1)
                          else
                            sqlVdbeAddOp2
                              (sqlVdbeAddOp2 parse OP_Integer space_id_reg entry_reg)
                              OP_SCopy index_id_reg (entry_reg + 1));
                       parse = sqlVdbeAddOp4 parse OP_String8 0 (entry_reg + 2) 0
                                 (P4_DYNAMIC (idx_name idx_def));
                       parse = sqlVdbeAddOp4 parse OP_String8 0 (entry_reg + 3) 0
                                 (P4_STATIC ''tree'');
                       parse = sqlVdbeAddOp4 parse OP_Blob (int (length index_opts))
                                 (entry_reg + 4) SQL_SUBTYPE_MSGPACK (P4_DYNAMIC index_opts);
                       parse = sqlVdbeAddOp4 parse OP_Blob (int (length index_parts))
                                 (entry_reg + 5) SQL_SUBTYPE_MSGPACK (P4_STATIC index_parts);
                       parse = sqlVdbeAddOp3 parse OP_MakeRecord entry_reg 6 tuple_reg;
                       parse = sqlVdbeAddOp3 parse OP_SInsert BOX_INDEX_ID 0 tuple_reg
                   in save_record parse BOX_INDEX_ID entry_reg 2 (nOp parse - 1))))"

definition vdbe_emit_space_create ::
  "box_env \<Rightarrow> Parse \<Rightarrow> int \<Rightarrow> int \<Rightarrow> space \<Rightarrow> Parse" where
  "vdbe_emit_space_create env pParse space_id_reg space_name_reg space =
     (let iFirstCol = nMem pParse + 1;
          tuple_reg = iFirstCol + 7;
          pParse = pParse\<lparr>nMem := tuple_reg\<rparr>
      in case env_encode env (Table_opts (sp_def space)) of
           None \<Rightarrow> pParse\<lparr>is_aborted := True\<rparr>
         | Some table_opts_stmt \<Rightarrow>
             (case env_encode env (Table_format (sp_def space)) of
                None \<Rightarrow> pParse\<lparr>is_aborted := True\<rparr>
              | Some table_stmt \<Rightarrow>
                  (let pParse = sqlVdbeAddOp2 pParse OP_SCopy space_id_reg iFirstCol;
                       pParse = sqlVdbeAddOp2 pParse OP_Integer (env_uid env) (iFirstCol + 1);
                       pParse = sqlVdbeAddOp2 pParse OP_SCopy space_name_reg (iFirstCol + 2);
                       pParse = sqlVdbeAddOp4 pParse OP_String8 0 (iFirstCol + 3) 0
                                  (P4_DYNAMIC (sd_engine_name (sp_def space)));
                       pParse = sqlVdbeAddOp2 pParse OP_Integer
                                  (int (length (sd_fields (sp_def space)))) (iFirstCol + 4);
                       pParse = sqlVdbeAddOp4 pParse OP_Blob (int (length table_opts_stmt))
                                  (iFirstCol + 5) SQL_SUBTYPE_MSGPACK
                                  (P4_DYNAMIC table_opts_stmt);
                       pParse = sqlVdbeAddOp4 pParse OP_Blob (int (length table_stmt))
                                  (iFirstCol + 6) SQL_SUBTYPE_MSGPACK (P4_STATIC table_stmt);
                       pParse = sqlVdbeAddOp3 pParse OP_MakeRecord iFirstCol 7 tuple_reg;
                       pParse = sqlVdbeAddOp3 pParse OP_SInsert BOX_SPACE_ID 0 tuple_reg;
                       pParse = sqlVdbeChangeP5 pParse OPFLAG_NCHANGE
                   in save_record pParse BOX_SPACE_ID iFirstCol 1 (nOp pParse - 1))))"

text \<open>\<^verbatim>\<open>emitNewSysSequenceRecord\<close>: the parse context and the first register.\<close>

definition emitNewSysSequenceRecord ::
  "box_env \<Rightarrow> Parse \<Rightarrow> int \<Rightarrow> string \<Rightarrow> Parse \<times> int" where
  "emitNewSysSequenceRecord env pParse reg_seq_id seq_name =
     (let first_col = nMem pParse + 1;
          pParse = pParse\<lparr>nMem := nMem pParse + 10\<rparr>;
          pParse = sqlVdbeAddOp2 pParse OP_SCopy reg_seq_id (first_col + 1);
          pParse = sqlVdbeAddOp2 pParse OP_Integer (env_uid env) (first_col + 2);
          pParse = sqlVdbeAddOp4 pParse OP_String8 0 (first_col + 3) 0 (P4_DYNAMIC seq_name);
          pParse = sqlVdbeAddOp2 pParse OP_Integer 1 (first_col + 4);
          pParse = sqlVdbeAddOp4 pParse OP_Int64 0 (first_col + 5) 0 (P4_INT64 0);
          pParse = sqlVdbeAddOp4 pParse OP_Int64 0 (first_col + 6) 0 (P4_INT64 LLONG_MAX);
          pParse = sqlVdbeAddOp2 pParse OP_Integer 1 (first_col + 7);
          pParse = sqlVdbeAddOp2 pParse OP_Integer 0 (first_col + 8);
          pParse = sqlVdbeAddOp2 pParse OP_Bool 0 (first_col + 9);
          pParse = sqlVdbeAddOp3 pParse OP_MakeRecord (first_col + 1) 9 first_col
      in (pParse, first_col))"

text \<open>
  \<^verbatim>\<open>emitNewSysSpaceSequenceRecord\<close>; the key parts of the model have no JSON path, so the
  field path is the empty static string.
\<close>

definition emitNewSysSpaceSequenceRecord ::
  "Parse \<Rightarrow> int \<Rightarrow> int \<Rightarrow> index_def \<Rightarrow> fault + Parse \<times> int" where
  "emitNewSysSpaceSequenceRecord pParse reg_space_id reg_seq_id idx_def =
     (case idx_parts idx_def of
        [] \<Rightarrow> Inl (AssertionFailed ''parts[0]'')
      | part # rest \<Rightarrow>
          (let first_col = nMem pParse + 1;
               pParse = pParse\<lparr>nMem := nMem pParse + 6\<rparr>;
               pParse = sqlVdbeAddOp2 pParse OP_SCopy reg_space_id (first_col + 1);
               pParse = sqlVdbeAddOp2 pParse OP_IntCopy reg_seq_id (first_col + 2);
               pParse = sqlVdbeAddOp2 pParse OP_Bool 1 (first_col + 3);
               pParse = sqlVdbeAddOp2 pParse OP_Integer (int (fieldno part)) (first_col + 4);
               pParse = sqlVdbeAddOp4 pParse OP_String8 0 (first_col + 5) 0 (P4_STATIC []);
               pParse = sqlVdbeAddOp3 pParse OP_MakeRecord (first_col + 1) 5 first_col
           in Inr (pParse, first_col)))"

definition vdbe_emit_ck_constraint_create ::
  "Parse \<Rightarrow> ck_constraint_def \<Rightarrow> int \<Rightarrow> Parse" where
  "vdbe_emit_ck_constraint_create parser ck_def reg_space_id =
     (case sqlGetTempRange parser 6 of
        (parser, ck_constraint_reg) \<Rightarrow>
          (let parser = sqlVdbeAddOp2 parser OP_SCopy reg_space_id ck_constraint_reg;
               parser = sqlVdbeAddOp4 parser OP_String8 0 (ck_constraint_reg + 1) 0
                          (P4_DYNAMIC (ck_name ck_def));
               parser = sqlVdbeAddOp2 parser OP_Bool 0 (ck_constraint_reg + 2);
               parser = sqlVdbeAddOp4 parser OP_String8 0 (ck_constraint_reg + 3) 0
                          (P4_STATIC (ck_language ck_def));
               parser = sqlVdbeAddOp4 parser OP_String8 0 (ck_constraint_reg + 4) 0
                          (P4_DYNAMIC (ck_expr_str ck_def));
               parser = sqlVdbeAddOp3 parser OP_MakeRecord ck_constraint_reg 5
                          (ck_constraint_reg + 5);
               parser = vdbe_emit_halt_with_presence_test parser BOX_CK_CONSTRAINT_ID 0
                          ck_constraint_reg 2 ER_CONSTRAINT_EXISTS (ck_name ck_def) False
                          OP_NoConflict;
               parser = sqlVdbeAddOp3 parser OP_SInsert BOX_CK_CONSTRAINT_ID 0
                          (ck_constraint_reg + 5)
           in save_record parser BOX_CK_CONSTRAINT_ID ck_constraint_reg 2 (nOp parser - 1)))"

text \<open>
  Modelled from the spec: \<^verbatim>\<open>fk_constraint_is_self_referenced\<close> is defined in another file;
  a foreign key is a self-reference when its child table is its parent table.
\<close>

definition fk_constraint_is_self_referenced :: "fk_constraint_def \<Rightarrow> bool" where
  "fk_constraint_is_self_referenced fk \<longleftrightarrow> fk_child_id fk = fk_parent_id fk"

definition vdbe_emit_fk_constraint_create ::
  "box_env \<Rightarrow> Parse \<Rightarrow> fk_constraint_def \<Rightarrow> Parse" where
  "vdbe_emit_fk_constraint_create env parse_context fk =
     (case sqlGetTempRange parse_context 10 of
        (parse_context, constr_tuple_reg) \<Rightarrow>
          (let parse_context = sqlVdbeAddOp4 parse_context OP_String8 0 constr_tuple_reg 0
                                 (P4_DYNAMIC (fk_name fk));
               parse_context =
                 (if new_space parse_context \<noteq> None
                  then sqlVdbeAddOp2 parse_context OP_SCopy (fk_child_id fk)
                         (constr_tuple_reg + 1)
                  else sqlVdbeAddOp2 parse_context OP_Integer (fk_child_id fk)
                         (constr_tuple_reg + 1));
               parse_context =
                 (if new_space parse_context \<noteq> None \<and> fk_constraint_is_self_referenced fk
                  then sqlVdbeAddOp2 parse_context OP_SCopy (fk_parent_id fk)
                         (constr_tuple_reg + 2)
                  else sqlVdbeAddOp2 parse_context OP_Integer (fk_parent_id fk)
                         (constr_tuple_reg + 2));
               parse_context = vdbe_emit_halt_with_presence_test parse_context
                                 BOX_FK_CONSTRAINT_ID 0 constr_tuple_reg 2
                                 ER_CONSTRAINT_EXISTS (fk_name fk) False OP_NoConflict;
               parse_context = sqlVdbeAddOp2 parse_context OP_Bool
                                 (if fk_is_deferred fk then 1 else 0) (constr_tuple_reg + 3);
               parse_context = sqlVdbeAddOp4 parse_context OP_String8 0 (constr_tuple_reg + 4)
                                 0 (P4_STATIC (fk_match fk));
               parse_context = sqlVdbeAddOp4 parse_context OP_String8 0 (constr_tuple_reg + 5)
                                 0 (P4_STATIC (fk_on_delete fk));
               parse_context = sqlVdbeAddOp4 parse_context OP_String8 0 (constr_tuple_reg + 6)
                                 0 (P4_STATIC (fk_on_update fk))
           in case env_encode env (Fk_links fk True) of
                None \<Rightarrow> parse_context\<lparr>is_aborted := True\<rparr>
              | Some parent_links \<Rightarrow>
                  (case env_encode env (Fk_links fk False) of
                     None \<Rightarrow> parse_context\<lparr>is_aborted := True\<rparr>
                   | Some child_links \<Rightarrow>
                       (let parse_context =
                              sqlVdbeAddOp4 parse_context OP_Blob (int (length child_links))
                                (constr_tuple_reg + 7) SQL_SUBTYPE_MSGPACK
                                (P4_STATIC child_links);
                            parse_context =
                              sqlVdbeAddOp4 parse_context OP_Blob (int (length parent_links))
                                (constr_tuple_reg + 8) SQL_SUBTYPE_MSGPACK
                                (P4_DYNAMIC parent_links);
                            parse_context =
                              sqlVdbeAddOp3 parse_context OP_MakeRecord constr_tuple_reg 9
                                (constr_tuple_reg + 9);
                            parse_context =
                              sqlVdbeAddOp3 parse_context OP_SInsert BOX_FK_CONSTRAINT_ID 0
                                (constr_tuple_reg + 9);
                            parse_context =
                              (if new_space parse_context = None
                               then sqlVdbeChangeP5 parse_context OPFLAG_NCHANGE
                               else parse_context)
                        in save_record parse_context BOX_FK_CONSTRAINT_ID constr_tuple_reg 2
                             (nOp parse_context - 1)))))"

text \<open>\<^verbatim>\<open>resolve_link\<close>: the parse context and the field number, \<open>None\<close> for -1.\<close>

definition resolve_link ::
  "Parse \<Rightarrow> space_def \<Rightarrow> string \<Rightarrow> string \<Rightarrow> Parse \<times> nat option" where
  "resolve_link parse_context def field_name fk_name' =
     (case field_index (sd_fields def) field_name of
        Some j \<Rightarrow> (parse_context, Some j)
      | None \<Rightarrow>
          (abort_with (ER_CREATE_FK_CONSTRAINT fk_name'
                         (''unknown column '' @ field_name @ '' in foreign key definition''))
             parse_context, None))"

text \<open>
  The loop of \<^verbatim>\<open>sqlEndTable\<close> that resolves the parent columns of a self-reference: the
  links with their parent fields set, or \<open>None\<close> at the first unknown column.
\<close>

fun selfref_links_loop ::
  "Parse \<Rightarrow> space_def \<Rightarrow> string \<Rightarrow> string list \<Rightarrow> (nat \<times> nat) list \<Rightarrow>
     Parse \<times> (nat \<times> nat) list option" where
  "selfref_links_loop parse def fkn cols [] = (parse, Some [])"
| "selfref_links_loop parse def fkn [] (l # ls) = (parse, Some (l # ls))"
| "selfref_links_loop parse def fkn (c # cols) ((child_field, parent_field) # ls) =
     (case resolve_link parse def c fkn of
        (parse', None) \<Rightarrow> (parse', None)
      | (parse', Some j) \<Rightarrow>
          (case selfref_links_loop parse' def fkn cols ls of
             (parse'', None) \<Rightarrow> (parse'', None)
           | (parse'', Some ls') \<Rightarrow> (parse'', Some ((child_field, j) # ls'))))"

text \<open>
  The loop of \<^verbatim>\<open>sqlEndTable\<close> over the pending foreign keys. The flag of the result is
  \<open>False\<close> when the function returns from inside the loop.
\<close>

fun end_table_fk_loop ::
  "box_env \<Rightarrow> Parse \<Rightarrow> space \<Rightarrow> int \<Rightarrow> fk_constraint_parse list \<Rightarrow> Parse \<times> bool" where
  "end_table_fk_loop env pParse new_space' reg_space_id [] = (pParse, True)"
| "end_table_fk_loop env pParse new_space' reg_space_id (fk_parse # rest) =
     (case (case selfref_cols fk_parse of
              Some cols \<Rightarrow>
                (case selfref_links_loop pParse (sp_def new_space') (fk_name (fk_def fk_parse))
                        cols (fk_links (fk_def fk_parse)) of
                   (pParse', None) \<Rightarrow> (pParse', None)
                 | (pParse', Some ls) \<Rightarrow>
                     (pParse', Some ((fk_def fk_parse)\<lparr>fk_links := ls,
                                       fk_parent_id := reg_space_id\<rparr>)))
            | None \<Rightarrow>
                if is_self_referenced fk_parse then
                  (case sql_space_primary_key new_space' of
                     None \<Rightarrow> (pParse, None)
                   | Some pk \<Rightarrow>
                       if length (idx_parts pk) \<noteq> length (fk_links (fk_def fk_parse)) then
                         (abort_with
                            (ER_CREATE_FK_CONSTRAINT (fk_name (fk_def fk_parse))
                               (''number of columns in foreign key does not match the '' @
                                ''number of columns in the primary index of referenced table''))
                            pParse, None)
                       else
                         (pParse,
                          Some ((fk_def fk_parse)\<lparr>fk_links :=
                                  map (\<lambda>(l, part). (fst l, fieldno part))
                                    (zip (fk_links (fk_def fk_parse)) (idx_parts pk)),
                                  fk_parent_id := reg_space_id\<rparr>)))
                else (pParse, Some (fk_def fk_parse))) of
        (pParse', None) \<Rightarrow> (pParse', False)
      | (pParse', Some fk_def') \<Rightarrow>
          end_table_fk_loop env
            (vdbe_emit_fk_constraint_create env pParse' (fk_def'\<lparr>fk_child_id := reg_space_id\<rparr>))
            new_space' reg_space_id rest)"

fun end_table_ck_loop :: "Parse \<Rightarrow> int \<Rightarrow> ck_constraint_def list \<Rightarrow> Parse" where
  "end_table_ck_loop pParse reg_space_id [] = pParse"
| "end_table_ck_loop pParse reg_space_id (ck_def # rest) =
     end_table_ck_loop (vdbe_emit_ck_constraint_create pParse ck_def reg_space_id)
       reg_space_id rest"

fun end_table_index_loop ::
  "box_env \<Rightarrow> Parse \<Rightarrow> space_def \<Rightarrow> int \<Rightarrow> index_def list \<Rightarrow> Parse" where
  "end_table_index_loop env pParse def reg_space_id [] = pParse"
| "end_table_index_loop env pParse def reg_space_id (idx # rest) =
     end_table_index_loop env
       (vdbe_emit_create_index env pParse def idx reg_space_id (int (iid idx)))
       def reg_space_id rest"

text \<open>
  The part of \<^verbatim>\<open>sqlEndTable\<close> for an AUTOINCREMENT column: the rows of \<^verbatim>\<open>_sequence\<close> and
  \<^verbatim>\<open>_space_sequence\<close>.
\<close>

definition end_table_autoinc ::
  "box_env \<Rightarrow> Parse \<Rightarrow> space \<Rightarrow> int \<Rightarrow> fault + Parse" where
  "end_table_autoinc env pParse new_space' reg_space_id =
     (let reg_seq_id = nMem pParse + 1;
          pParse = pParse\<lparr>nMem := reg_seq_id\<rparr>;
          pParse = sqlVdbeAddOp2 pParse OP_NextSequenceId 0 reg_seq_id
      in case emitNewSysSequenceRecord env pParse reg_seq_id (sd_name (sp_def new_space')) of
           (pParse, reg_seq_record) \<Rightarrow>
             (let pParse = sqlVdbeAddOp3 pParse OP_SInsert BOX_SEQUENCE_ID 0 reg_seq_record;
                  pParse = save_record pParse BOX_SEQUENCE_ID (reg_seq_record + 1) 1
                             (nOp pParse - 1)
              in case sp_index new_space' of
                   [] \<Rightarrow> Inl (AssertionFailed ''index[0]'')
                 | idx0 # rest \<Rightarrow>
                     (case emitNewSysSpaceSequenceRecord pParse reg_space_id reg_seq_id idx0 of
                        Inl f \<Rightarrow> Inl f
                      | Inr (pParse, reg_space_seq_record) \<Rightarrow>
                          (let pParse = sqlVdbeAddOp3 pParse OP_SInsert BOX_SPACE_SEQUENCE_ID 0
                                          reg_space_seq_record
                           in Inr (save_record pParse BOX_SPACE_SEQUENCE_ID
                                     (reg_space_seq_record + 1) 1 (nOp pParse - 1))))))"

text \<open>
  The defaults \<^verbatim>\<open>sqlEndTable\<close> sets for the columns without a NULL or NOT NULL clause.
\<close>

definition actualize_nullable_action :: "field_def \<Rightarrow> field_def" where
  "actualize_nullable_action field =
     (if fd_nullable_action field = ON_CONFLICT_ACTION_DEFAULT
      then field\<lparr>fd_nullable_action := ON_CONFLICT_ACTION_NONE, fd_is_nullable := True\<rparr>
      else field)"

text \<open>
  The end of \<^verbatim>\<open>sqlEndTable\<close>, after the rows of the indexes: the rows of the sequence, of
  the foreign keys and of the CHECK constraints.
\<close>

definition end_table_constraints ::
  "box_env \<Rightarrow> Parse \<Rightarrow> space \<Rightarrow> int \<Rightarrow> fault + Parse" where
  "end_table_constraints env pParse new_space' reg_space_id =
     (case (if has_autoinc pParse
            then end_table_autoinc env pParse new_space' reg_space_id
            else Inr pParse) of
        Inl f \<Rightarrow> Inl f
      | Inr pParse \<Rightarrow>
          (case end_table_fk_loop env pParse new_space' reg_space_id (new_fkey pParse) of
             (pParse, False) \<Rightarrow> Inr pParse
           | (pParse, True) \<Rightarrow>
               Inr (end_table_ck_loop pParse reg_space_id (new_check pParse))))"

definition sqlEndTable :: "box_env \<Rightarrow> Parse \<Rightarrow> fault + Parse" where
  "sqlEndTable env pParse =
     (case new_space pParse of
        None \<Rightarrow> Inr pParse
      | Some new_space0 \<Rightarrow>
          if sd_is_view (sp_def new_space0) then
            Inl (AssertionFailed ''!new_space->def->opts.is_view'')
          else if sql_space_primary_key new_space0 = None then
            Inr (abort_with (ER_CREATE_SPACE (sd_name (sp_def new_space0))
                               ''PRIMARY KEY missing'') pParse)
          else
            (let new_space' =
                   new_space0\<lparr>sp_def := (sp_def new_space0)\<lparr>sd_fields :=
                     map actualize_nullable_action (sd_fields (sp_def new_space0))\<rparr>\<rparr>;
                 pParse = pParse\<lparr>new_space := Some new_space'\<rparr>;
                 name_reg = nMem pParse + 1;
                 pParse = pParse\<lparr>nMem := name_reg\<rparr>;
                 pParse = sqlVdbeAddOp4 pParse OP_String8 0 name_reg 0
                            (P4_DYNAMIC (sd_name (sp_def new_space')));
                 pParse = vdbe_emit_halt_with_presence_test pParse BOX_SPACE_ID 2 name_reg 1
                            ER_SPACE_EXISTS (sd_name (sp_def new_space')) (if_not_exist pParse)
                            OP_NoConflict
             in case getNewSpaceId pParse of
                  (pParse, reg_space_id) \<Rightarrow>
                    (let pParse = vdbe_emit_space_create env pParse reg_space_id name_reg
                                    new_space';
                         pParse = end_table_index_loop env pParse (sp_def new_space')
                                    reg_space_id (sp_index new_space')
                     in end_table_constraints env pParse new_space' reg_space_id)))"

subsection \<open>CHECK constraints of a table under construction\<close>

text \<open>The string a zero-terminated buffer holds.\<close>

definition c_str :: "char list \<Rightarrow> string" where
  "c_str buf = takeWhile (\<lambda>c. c \<noteq> NUL) buf"

text \<open>
  \<^verbatim>\<open>sql_create_check_contraint\<close>; \<open>name_token\<close> is the constraint name (empty when the
  constraint has none) and \<open>expr_str\<close> the source text of the expression, from
  \<^verbatim>\<open>expr_span->zStart\<close> to \<^verbatim>\<open>expr_span->zEnd\<close>. The destination of the normalised text is the
  part of the allocated definition that \<^verbatim>\<open>ck_constraint_def_sizeof\<close> (another file)
  reserves for it: \<^verbatim>\<open>expr_str_len + 1\<close> bytes. A store outside it is a fault. The counter
  \<^verbatim>\<open>check_count\<close> is a \<^verbatim>\<open>uint32_t\<close>: the increment wraps at \<open>2 ^ 32\<close>, and the name of an
  unnamed constraint prints it with \<^verbatim>\<open>%d\<close>.
\<close>

definition sql_create_check_contraint :: "Parse \<Rightarrow> string \<Rightarrow> string \<Rightarrow> fault + Parse" where
  "sql_create_check_contraint parser name_token expr_str =
     (case new_space parser of
        None \<Rightarrow> Inl (AssertionFailed ''space != NULL'')
      | Some space \<Rightarrow>
          (let (parser, name) =
                 (if length name_token > 0 then (parser, name_token)
                  else
                    (let ck_idx = (check_count parser + 1) mod 2 ^ 32
                     in (parser\<lparr>check_count := ck_idx\<rparr>,
                         ''CK_CONSTRAINT_'' @ sprintf_d_uint32 ck_idx @ ''_'' @
                           sd_name (sp_def space))))
           in case trim_space_snprintf (replicate (length expr_str + 1) NUL) expr_str of
                None \<Rightarrow> Inl (AssertionFailed ''store outside expr_str'')
              | Some (buf, n) \<Rightarrow>
                  Inr (parser\<lparr>new_check :=
                         \<lparr>ck_name = name, ck_expr_str = c_str buf, ck_space_id = None,
                          ck_language = ''SQL''\<rparr> # new_check parser\<rparr>)))"

subsection \<open>DROP TABLE\<close>










subsection \<open>Notions used in the statements, and sample statements\<close>

text \<open>
  A parse context at the start of a statement (the program holds \<^verbatim>\<open>OP_Init\<close>, which
  \<^verbatim>\<open>sqlGetVdbe\<close> emits), and the table of \<^verbatim>\<open>CREATE TABLE t(a INT ...\<close> after its first
  column.
\<close>

definition parse_init :: Parse where
  "parse_init =
     \<lparr>aOp = [\<lparr>opcode = OP_Init, p1 = 0, p2 = 1, p3 = 0, p4 = P4_NOTUSED, p5 = P5_NONE\<rparr>],
      nMem = 0, nTab = 0, record_list = [], is_aborted = False, diag = None,
      new_space = None, has_autoinc = False, new_fkey = [], new_check = [], check_count = 0,
      if_not_exist = False, initiateTTrans = True, limit_column = 2000\<rparr>"

definition draft_t_a :: Parse where
  "draft_t_a =
     sqlAddColumn (parse_init\<lparr>new_space := Some (sql_ephemeral_space_new ''T'')\<rparr>)
       ''A'' FIELD_TYPE_INTEGER"

text \<open>The column added last to the table under construction.\<close>

definition last_column :: "Parse \<Rightarrow> field_def option" where
  "last_column parser =
     (case new_space parser of
        None \<Rightarrow> None
      | Some space \<Rightarrow>
          (if sd_fields (sp_def space) = [] then None
           else Some (last (sd_fields (sp_def space)))))"

text \<open>
  An environment for sample statements: no collation is defined, every identifier and every
  index definition is accepted, the encoders return an empty blob, no table exists yet, and
  dropping a trigger emits nothing.
\<close>

definition env0 :: box_env where
  "env0 =
     \<lparr>env_coll_by_name = (\<lambda>z. None), env_coll_by_id = (\<lambda>i. None),
      env_identifier_check = (\<lambda>z. None), env_index_def_is_valid = (\<lambda>d n. None),
      env_encode = (\<lambda>m. Some []), env_uid = 1, env_space_by_name = (\<lambda>z. None),
      env_code_drop_trigger = (\<lambda>p z. p)\<rparr>"

text \<open>The column and the table of \<open>draft_t_a\<close>, written out.\<close>

definition column_a :: field_def where
  "column_a =
     \<lparr>fd_name = ''A'', fd_type = FIELD_TYPE_INTEGER,
      fd_nullable_action = ON_CONFLICT_ACTION_DEFAULT, fd_is_nullable = True,
      fd_default_value = None, fd_coll_id = COLL_NONE\<rparr>"

definition space_t_a :: space where
  "space_t_a =
     \<lparr>sp_def = \<lparr>sd_id = 0, sd_name = ''T'', sd_engine_name = [], sd_fields = [column_a],
                sd_is_view = False\<rparr>,
      sp_index = [], index_id_max = 0, sql_triggers = [], sequence = None,
      child_fk_constraint = [], parent_fk_constraint = [], ck_constraint = []\<rparr>"

text \<open>\<^verbatim>\<open>CREATE TABLE t(a INT PRIMARY KEY ...\<close> after the PRIMARY KEY clause of the column.\<close>

definition draft_t_a_pk :: Parse where
  "draft_t_a_pk = projr (sqlAddPrimaryKey env0 draft_t_a None None)"

text \<open>The tables of \<^verbatim>\<open>CREATE TABLE t(a INT, b INT ...\<close> and \<^verbatim>\<open>CREATE TABLE t(a INT, b INT, c TEXT ...\<close>
  after their columns.\<close>

definition draft_t_ab :: Parse where
  "draft_t_ab = sqlAddColumn draft_t_a ''B'' FIELD_TYPE_INTEGER"

definition draft_t_abc :: Parse where
  "draft_t_abc = sqlAddColumn draft_t_ab ''C'' FIELD_TYPE_STRING"

text \<open>
  The column list of \<^verbatim>\<open>PRIMARY KEY(b, a, b, c, a)\<close>, and the table of
  \<^verbatim>\<open>CREATE TABLE t(a INT, b INT, c TEXT, PRIMARY KEY(b, a, b, c, a) ...\<close> after that clause.
\<close>

definition pk_cols_babca :: "Expr list" where
  "pk_cols_babca = [TK_ID ''B'', TK_ID ''A'', TK_ID ''B'', TK_ID ''C'', TK_ID ''A'']"

definition draft_t_abc_pk :: Parse where
  "draft_t_abc_pk = projr (sqlAddPrimaryKey env0 draft_t_abc (Some pk_cols_babca) None)"

text \<open>
  The position of the column that an entry of a column list names (under its COLLATE
  operators), and the positions of a whole list; \<open>None\<close> when an entry is not the name of a
  column of the table.
\<close>

definition column_position :: "space_def \<Rightarrow> Expr \<Rightarrow> nat option" where
  "column_position def expr =
     (case sqlExprSkipCollate expr of
        TK_ID z \<Rightarrow> field_index (sd_fields def) z
      | TK_COLLATE e z \<Rightarrow> None
      | TK_OTHER \<Rightarrow> None)"

fun column_positions :: "space_def \<Rightarrow> Expr list \<Rightarrow> nat list option" where
  "column_positions def [] = Some []"
| "column_positions def (e # es) =
     (case column_position def e of
        None \<Rightarrow> None
      | Some i \<Rightarrow> map_option ((#) i) (column_positions def es))"

text \<open>
  In the words of the specification, for field positions: keep the first occurrence of each
  position and drop the later repeats, in the original order.
\<close>

fun first_positions :: "nat list \<Rightarrow> nat list" where
  "first_positions [] = []"
| "first_positions (i # is) = i # first_positions (filter (\<lambda>j. j \<noteq> i) is)"

text \<open>
  In the words of the specification: of the key parts, keep the first occurrence of each
  field position and drop the later repeats, in the original order.
\<close>

fun first_occurrences :: "key_part list \<Rightarrow> key_part list" where
  "first_occurrences [] = []"
| "first_occurrences (p # ps) =
     p # first_occurrences (filter (\<lambda>q. fieldno q \<noteq> fieldno p) ps)"


text \<open>
  The saved records are consistent with the program: each names the address of an
  \<^verbatim>\<open>OP_SInsert\<close> instruction of the program, past address 0, and no two name the same.
\<close>

definition ledger_ok :: "Parse \<Rightarrow> bool" where
  "ledger_ok p \<longleftrightarrow>
     (\<forall>r \<in> set (record_list p).
        0 < insertion_opcode r \<and> nat (insertion_opcode r) < length (aOp p) \<and>
        opcode (aOp p ! nat (insertion_opcode r)) = OP_SInsert) \<and>
     distinct (map insertion_opcode (record_list p))"

text \<open>
  The number of insertions into \<^verbatim>\<open>_index\<close> in a list of instructions, and the relation
  between the parse contexts before and after a piece of code generation of
  \<^verbatim>\<open>sqlEndTable\<close>: instructions \<open>ops\<close> are appended and records \<open>rs\<close> are put in front of the
  list; unless the statement is aborted there are \<open>k\<close> new records and \<open>m\<close> insertions into
  \<^verbatim>\<open>_index\<close>.
\<close>

definition index_inserts :: "VdbeOp list \<Rightarrow> nat" where
  "index_inserts ops = length (filter (\<lambda>op. opcode op = OP_SInsert \<and> p1 op = BOX_INDEX_ID) ops)"

definition emit_step :: "nat \<Rightarrow> nat \<Rightarrow> Parse \<Rightarrow> Parse \<Rightarrow> bool" where
  "emit_step k m p q \<longleftrightarrow>
     (\<exists>ops rs.
        aOp q = aOp p @ ops \<and> record_list q = rs @ record_list p \<and>
        (ledger_ok p \<and> aOp p \<noteq> [] \<longrightarrow> ledger_ok q) \<and>
        (is_aborted p \<longrightarrow> is_aborted q) \<and>
        new_space q = new_space p \<and> has_autoinc q = has_autoinc p \<and>
        new_fkey q = new_fkey p \<and> new_check q = new_check p \<and>
        initiateTTrans q = initiateTTrans p \<and>
        (\<not> is_aborted q \<longrightarrow> length rs = k \<and> index_inserts ops = m))"

text \<open>The clean-up code for the records of a list, from the register after \<open>reg\<close> on.\<close>

fun undo_code :: "int \<Rightarrow> saved_record list \<Rightarrow> VdbeOp list" where
  "undo_code reg [] = []"
| "undo_code reg (r # rs) =
     \<lparr>opcode = OP_MakeRecord, p1 = reg_key r, p2 = reg_key_count r, p3 = reg + 1,
      p4 = P4_NOTUSED, p5 = P5_NONE\<rparr> #
     \<lparr>opcode = OP_SDelete, p1 = space_id r, p2 = reg + 1, p3 = 0,
      p4 = P4_NOTUSED, p5 = P5_NONE\<rparr> #
     undo_code (reg + 1) rs"

text \<open>Setting P2 of the instructions at the given addresses, in order.\<close>

fun patch_p2 :: "VdbeOp list \<Rightarrow> (int \<times> int) list \<Rightarrow> VdbeOp list" where
  "patch_p2 ops [] = ops"
| "patch_p2 ops ((addr, val) # rest) =
     patch_p2 (ops[nat addr := (ops ! nat addr)\<lparr>p2 := val\<rparr>]) rest"

text \<open>
  \<^verbatim>\<open>CREATE TABLE t(a INT, b INT, UNIQUE(b) ...\<close> after the UNIQUE clause, then after a following
  \<^verbatim>\<open>UNIQUE(a)\<close>, and then what \<^verbatim>\<open>sql_create_index\<close> makes of a following \<^verbatim>\<open>PRIMARY KEY(a)\<close>.
\<close>

definition draft_t_ab_unique_b :: Parse where
  "draft_t_ab_unique_b =
     projr (sql_create_index env0 draft_t_ab (Some [TK_ID ''B''])
              SQL_INDEX_TYPE_CONSTRAINT_UNIQUE None)"

definition draft_t_ab_unique_b_a :: Parse where
  "draft_t_ab_unique_b_a =
     projr (sql_create_index env0 draft_t_ab_unique_b (Some [TK_ID ''A''])
              SQL_INDEX_TYPE_CONSTRAINT_UNIQUE None)"

definition draft_t_ab_unique_b_a_pk :: Parse where
  "draft_t_ab_unique_b_a_pk =
     projr (sql_create_index env0 draft_t_ab_unique_b_a (Some [TK_ID ''A''])
              SQL_INDEX_TYPE_CONSTRAINT_PK None)"







section \<open>Properties\<close>

subsection \<open>Whitespace normalisation\<close>

lemma trim_chars_length: "length (trim_chars q prev str) \<le> length str"
  by (induction str arbitrary: q prev) (auto simp: le_SucI)

lemma trim_space_loop_chars:
  "w \<le> length buf \<Longrightarrow> trim_space_loop buf w q prev str =
     (if w + length (trim_chars q prev str) \<le> length buf
      then Some (take w buf @ trim_chars q prev str @
                   drop (w + length (trim_chars q prev str)) buf,
                 w + length (trim_chars q prev str))
      else None)"
proof (induction str arbitrary: buf w q prev)
  case Nil
  then show ?case by simp
next
  case (Cons c str)
  have upd: "\<And>x. w < length buf \<Longrightarrow> take (Suc w) (buf[w := x]) = take w buf @ [x]"
    by (simp add: take_Suc_conv_app_nth)
  from Cons.prems show ?case
    by (auto simp: Cons.IH store_chr_def upd Suc_le_eq)
qed

lemma trim_chars_in_quote:
  "q \<noteq> NUL \<Longrightarrow> trim_chars q prev cs =
     takeWhile (\<lambda>x. x \<noteq> q) cs @
       (case dropWhile (\<lambda>x. x \<noteq> q) cs of
          [] \<Rightarrow> []
        | x # rest \<Rightarrow> x # trim_chars NUL False rest)"
  by (induction cs arbitrary: prev) auto

lemma isspace_not_quote: "isspace c \<Longrightarrow> c \<noteq> CHR 0x27 \<and> c \<noteq> CHR 0x22"
  by (auto simp: isspace_def)

lemma trim_chars_after_space:
  "trim_chars NUL True cs = trim_chars NUL False (dropWhile isspace cs)"
  by (induction cs) (auto simp: isspace_not_quote)

lemma quote_not_NUL: "c = CHR 0x27 \<or> c = CHR 0x22 \<Longrightarrow> c \<noteq> NUL"
  by (auto simp: NUL_def)

lemma trim_chars_spec: "trim_chars NUL False str = ck_normalize_spec str"
proof (induction str rule: ck_normalize_spec.induct)
  case 1
  show ?case by simp
next
  case (2 c cs)
  show ?case
  proof (cases "c = CHR 0x27 \<or> c = CHR 0x22")
    case True
    then have nz: "c \<noteq> NUL" by (rule quote_not_NUL)
    show ?thesis
    proof (cases "dropWhile (\<lambda>x. x \<noteq> c) cs")
      case Nil
      with True nz show ?thesis
        by (simp add: trim_chars_in_quote del: dropWhile_eq_Nil_conv)
    next
      case (Cons x rest)
      with True nz 2(1)[OF True Cons] show ?thesis
        by (simp add: trim_chars_in_quote)
    qed
  next
    case False
    with 2(2,3) show ?thesis
      by (simp add: trim_chars_after_space)
  qed
qed

lemma trim_space_snprintf_chars:
  assumes "length (trim_chars NUL False str) < length buf"
  shows "trim_space_snprintf buf str =
           Some (trim_chars NUL False str @ NUL #
                   drop (Suc (length (trim_chars NUL False str))) buf,
                 Suc (length (trim_chars NUL False str)))"
proof -
  let ?out = "trim_chars NUL False str"
  have loop: "trim_space_loop buf 0 NUL False str = Some (?out @ drop (length ?out) buf, length ?out)"
    using assms by (simp add: trim_space_loop_chars)
  from assms obtain x where "drop (length ?out) buf = x # drop (Suc (length ?out)) buf"
    by (metis Cons_nth_drop_Suc)
  then have "(?out @ drop (length ?out) buf)[length ?out := NUL] =
          ?out @ NUL # drop (Suc (length ?out)) buf"
    by (simp add: list_update_append)
  with assms show ?thesis
    by (simp add: trim_space_snprintf_def loop store_chr_def)
qed

text \<open>
  C10. For every input of length L and a destination of L + 1 bytes, the normaliser stores
  at most L + 1 bytes (at most L characters and the terminating NUL) and no store falls
  outside the destination.
\<close>

theorem trim_space_snprintf_no_overrun:
  assumes "length buf = length str + 1"
  shows "\<exists>buf' n. trim_space_snprintf buf str = Some (buf', n) \<and>
           n \<le> length str + 1 \<and> length buf' = length buf"
proof -
  let ?out = "trim_chars NUL False str"
  have len: "length ?out \<le> length str"
    by (rule trim_chars_length)
  with assms have lt: "length ?out < length buf"
    by simp
  have "trim_space_snprintf buf str =
          Some (?out @ NUL # drop (Suc (length ?out)) buf, Suc (length ?out))"
    using lt by (rule trim_space_snprintf_chars)
  moreover have "length (?out @ NUL # drop (Suc (length ?out)) buf) = length buf"
    using lt by simp
  ultimately show ?thesis
    using len by simp
qed

theorem trim_space_snprintf_no_overrun_witness:
  "length (replicate 5 NUL) = length ''a  b'' + 1 \<and>
   (\<exists>buf' n. trim_space_snprintf (replicate 5 NUL) ''a  b'' = Some (buf', n) \<and>
      n \<le> length ''a  b'' + 1 \<and> length buf' = length (replicate 5 NUL))"
  using trim_space_snprintf_no_overrun [of "replicate 5 NUL" "''a  b''"]
  by simp

text \<open>
  C4, as amended. The text of a CHECK expression is normalised so that every run of
  whitespace outside quoted regions becomes one space, a run at the start or at the end of
  the text included, and quoted regions are copied unchanged: the destination holds
  \<open>ck_normalize_spec str\<close> followed by NUL. The source text of the claim, with two spaces
  before and after it, becomes the text with one space before and after it.
\<close>

theorem ck_expr_normalized:
  assumes "length str < length buf"
  shows "\<exists>rest. trim_space_snprintf buf str =
           Some (ck_normalize_spec str @ NUL # rest, Suc (length (ck_normalize_spec str)))"
proof -
  have "length (trim_chars NUL False str) \<le> length str"
    by (rule trim_chars_length)
  with assms have "length (trim_chars NUL False str) < length buf"
    by simp
  then show ?thesis
    by (simp add: trim_space_snprintf_chars trim_chars_spec)
qed

theorem ck_expr_normalized_witness:
  "length ''  a  =  'x   y'  '' < length (replicate 18 NUL) \<and>
   (\<exists>rest. trim_space_snprintf (replicate 18 NUL) ''  a  =  'x   y'  '' =
      Some ('' a = 'x   y' '' @ NUL # rest, 14))"
  using ck_expr_normalized [of "''  a  =  'x   y'  ''" "replicate 18 NUL"]
  by (simp add: isspace_def eval_nat_numeral)

text \<open>
  The claim as stated fails on its own example: the normalised text keeps one space of the
  leading run and one of the trailing run.
\<close>

theorem ck_expr_example_counterexample:
  "trim_space_snprintf (replicate 18 NUL) ''  a  =  'x   y'  '' =
     Some ('' a = 'x   y' '' @ replicate 5 NUL, 14) \<and>
   c_str ('' a = 'x   y' '' @ replicate 5 NUL) \<noteq> ''a = 'x   y'' @ [CHR 0x27]"
  by (simp add: trim_space_snprintf_def store_chr_def isspace_def NUL_def c_str_def
        numeral_eq_Suc)

subsection \<open>Evaluating sample statements\<close>

lemmas sample_defs = draft_t_a_def draft_t_ab_def draft_t_abc_def parse_init_def sqlAddColumn_def
  sql_ephemeral_space_new_def env0_def

lemmas index_defs = sqlAddPrimaryKey_def sql_create_index_def pk_finish_def pk_columns_def
  sql_space_primary_key_def constraint_index_name_def sqlCheckIdentifierName_def
  index_col_list_def index_fill_def_def sql_resolve_self_reference_def index_part_coll_id_def
  remove_redundant_parts_def table_add_index_def field_def_create_for_pk_def abort_with_def
  BOX_NAME_MAX_def sprintf_d_uint32_def constraint_is_named_def starts_with_def
  dedup_loop.simps dedup_find.simps dec_of_nat.simps Let_def

lemma draft_t_a_primary_key:
  "sqlAddPrimaryKey env0 draft_t_a None None = Inr draft_t_a_pk"
  by (simp add: draft_t_a_pk_def sample_defs index_defs cong: let_weak_cong)

lemma draft_t_a_pk_column:
  "last_column draft_t_a_pk =
     Some \<lparr>fd_name = ''A'', fd_type = FIELD_TYPE_INTEGER,
           fd_nullable_action = ON_CONFLICT_ACTION_ABORT, fd_is_nullable = False,
           fd_default_value = None, fd_coll_id = COLL_NONE\<rparr>"
  by (simp add: draft_t_a_pk_def last_column_def sample_defs index_defs cong: let_weak_cong)

subsection \<open>NULL and NOT NULL clauses of a column\<close>

lemma last_columnD:
  assumes "last_column parser = Some f"
  obtains space where "new_space parser = Some space" "sd_fields (sp_def space) \<noteq> []"
    "sd_fields (sp_def space) ! (length (sd_fields (sp_def space)) - 1) = f"
  using assms
  by (auto simp: last_column_def last_conv_nth split: option.splits if_splits)

lemma add_nullable_accept:
  assumes "new_space parser = Some space" "sd_fields (sp_def space) \<noteq> []"
    and "fd_nullable_action (sd_fields (sp_def space) ! (length (sd_fields (sp_def space)) - 1)) =
           ON_CONFLICT_ACTION_DEFAULT \<or>
         fd_nullable_action (sd_fields (sp_def space) ! (length (sd_fields (sp_def space)) - 1)) = a"
  shows "sql_column_add_nullable_action parser a =
           parser\<lparr>new_space := Some (space\<lparr>sp_def := (sp_def space)\<lparr>sd_fields :=
             (sd_fields (sp_def space))[length (sd_fields (sp_def space)) - 1 :=
               (sd_fields (sp_def space) ! (length (sd_fields (sp_def space)) - 1))
                 \<lparr>fd_nullable_action := a,
                  fd_is_nullable := action_is_nullable a\<rparr>]\<rparr>\<rparr>)\<rparr>"
  using assms by (auto simp: sql_column_add_nullable_action_def Let_def)

lemma add_nullable_reject:
  assumes "new_space parser = Some space" "sd_fields (sp_def space) \<noteq> []"
    and "sd_fields (sp_def space) ! (length (sd_fields (sp_def space)) - 1) = f"
    and "fd_nullable_action f \<noteq> ON_CONFLICT_ACTION_DEFAULT" "fd_nullable_action f \<noteq> a"
  shows "sql_column_add_nullable_action parser a =
           abort_with
             (ER_SQL (''NULL declaration for column '' @ [CHR 0x27] @ fd_name f @
                      [CHR 0x27] @ '' of table '' @ [CHR 0x27] @ sd_name (sp_def space) @
                      [CHR 0x27] @ '' has been already set to '' @ [CHR 0x27] @
                      on_conflict_action_strs (fd_nullable_action f) @ [CHR 0x27]))
             parser"
proof -
  have "a \<noteq> fd_nullable_action f"
    using assms(5) by blast
  with assms(1-4) show ?thesis
    by (simp add: sql_column_add_nullable_action_def Let_def)
qed

lemma add_nullable_accepted:
  assumes col: "last_column parser = Some f"
    and ok: "fd_nullable_action f = ON_CONFLICT_ACTION_DEFAULT \<or> fd_nullable_action f = a"
  shows "last_column (sql_column_add_nullable_action parser a) =
           Some (f\<lparr>fd_nullable_action := a, fd_is_nullable := action_is_nullable a\<rparr>)"
    and "is_aborted (sql_column_add_nullable_action parser a) = is_aborted parser"
    and "diag (sql_column_add_nullable_action parser a) = diag parser"
    and "map_option (\<lambda>s. sd_name (sp_def s)) (new_space (sql_column_add_nullable_action parser a)) =
           map_option (\<lambda>s. sd_name (sp_def s)) (new_space parser)"
proof -
  from col obtain space where sp: "new_space parser = Some space"
    "sd_fields (sp_def space) \<noteq> []"
    "sd_fields (sp_def space) ! (length (sd_fields (sp_def space)) - 1) = f"
    by (rule last_columnD)
  have ok': "fd_nullable_action (sd_fields (sp_def space) !
               (length (sd_fields (sp_def space)) - 1)) = ON_CONFLICT_ACTION_DEFAULT \<or>
             fd_nullable_action (sd_fields (sp_def space) !
               (length (sd_fields (sp_def space)) - 1)) = a"
    using ok sp(3) by simp
  note eq = add_nullable_accept [OF sp(1,2) ok']
  show "last_column (sql_column_add_nullable_action parser a) =
           Some (f\<lparr>fd_nullable_action := a, fd_is_nullable := action_is_nullable a\<rparr>)"
    using sp(2,3) by (simp add: eq last_column_def last_conv_nth)
  show "is_aborted (sql_column_add_nullable_action parser a) = is_aborted parser"
    by (simp add: eq)
  show "diag (sql_column_add_nullable_action parser a) = diag parser"
    by (simp add: eq)
  show "map_option (\<lambda>s. sd_name (sp_def s)) (new_space (sql_column_add_nullable_action parser a)) =
           map_option (\<lambda>s. sd_name (sp_def s)) (new_space parser)"
    by (simp add: eq sp(1))
qed

lemma add_nullable_rejected:
  assumes col: "last_column parser = Some f" and sp: "new_space parser = Some space"
    and no: "fd_nullable_action f \<noteq> ON_CONFLICT_ACTION_DEFAULT" "fd_nullable_action f \<noteq> a"
  shows "sql_column_add_nullable_action parser a =
           abort_with
             (ER_SQL (''NULL declaration for column '' @ [CHR 0x27] @ fd_name f @
                      [CHR 0x27] @ '' of table '' @ [CHR 0x27] @ sd_name (sp_def space) @
                      [CHR 0x27] @ '' has been already set to '' @ [CHR 0x27] @
                      on_conflict_action_strs (fd_nullable_action f) @ [CHR 0x27]))
             parser"
proof -
  from col obtain space' where sp': "new_space parser = Some space'"
    "sd_fields (sp_def space') \<noteq> []"
    "sd_fields (sp_def space') ! (length (sd_fields (sp_def space')) - 1) = f"
    by (rule last_columnD)
  from sp sp'(1) have "space' = space" by simp
  with sp' show ?thesis
    using add_nullable_reject [OF sp _ _ no] by simp
qed

lemma abort_with_twice: "abort_with e (abort_with e p) = abort_with e p"
  by (simp add: abort_with_def)

lemma add_nullable_idem:
  "sql_column_add_nullable_action (sql_column_add_nullable_action parser a) a =
     sql_column_add_nullable_action parser a"
proof (cases "last_column parser")
  case None
  then have "sql_column_add_nullable_action parser a = parser"
    by (auto simp: last_column_def sql_column_add_nullable_action_def Let_def
          split: option.splits if_splits)
  then show ?thesis by simp
next
  case (Some f)
  then obtain space where sp: "new_space parser = Some space"
    by (auto simp: last_column_def split: option.splits)
  show ?thesis
  proof (cases "fd_nullable_action f = ON_CONFLICT_ACTION_DEFAULT \<or> fd_nullable_action f = a")
    case True
    let ?q = "sql_column_add_nullable_action parser a"
    let ?f' = "f\<lparr>fd_nullable_action := a, fd_is_nullable := action_is_nullable a\<rparr>"
    have col': "last_column ?q = Some ?f'"
      using Some True by (rule add_nullable_accepted(1))
    from col' obtain space' where sp': "new_space ?q = Some space'"
      "sd_fields (sp_def space') \<noteq> []"
      "sd_fields (sp_def space') ! (length (sd_fields (sp_def space')) - 1) = ?f'"
      by (rule last_columnD)
    have ok': "fd_nullable_action (sd_fields (sp_def space') !
               (length (sd_fields (sp_def space')) - 1)) = ON_CONFLICT_ACTION_DEFAULT \<or>
             fd_nullable_action (sd_fields (sp_def space') !
               (length (sd_fields (sp_def space')) - 1)) = a"
      using sp'(3) by simp
    have upd: "(sd_fields (sp_def space'))[length (sd_fields (sp_def space')) - 1 :=
               (sd_fields (sp_def space') ! (length (sd_fields (sp_def space')) - 1))
                 \<lparr>fd_nullable_action := a, fd_is_nullable := action_is_nullable a\<rparr>] =
               sd_fields (sp_def space')"
    proof -
      have "(sd_fields (sp_def space') ! (length (sd_fields (sp_def space')) - 1))
                 \<lparr>fd_nullable_action := a, fd_is_nullable := action_is_nullable a\<rparr> =
            sd_fields (sp_def space') ! (length (sd_fields (sp_def space')) - 1)"
        unfolding sp'(3) by simp
      then show ?thesis
        by (simp only: list_update_id)
    qed
    have "sql_column_add_nullable_action ?q a = ?q\<lparr>new_space := Some space'\<rparr>"
      unfolding add_nullable_accept [OF sp'(1,2) ok'] upd by simp
    also have "\<dots> = ?q"
      using sp'(1) by simp
    finally show ?thesis .
  next
    case False
    then have no: "fd_nullable_action f \<noteq> ON_CONFLICT_ACTION_DEFAULT" "fd_nullable_action f \<noteq> a"
      by simp_all
    let ?e = "ER_SQL (''NULL declaration for column '' @ [CHR 0x27] @ fd_name f @
                      [CHR 0x27] @ '' of table '' @ [CHR 0x27] @ sd_name (sp_def space) @
                      [CHR 0x27] @ '' has been already set to '' @ [CHR 0x27] @
                      on_conflict_action_strs (fd_nullable_action f) @ [CHR 0x27])"
    have q: "sql_column_add_nullable_action parser a = abort_with ?e parser"
      using Some sp no by (rule add_nullable_rejected)
    have col': "last_column (abort_with ?e parser) = Some f"
      using Some by (simp add: last_column_def abort_with_def)
    have sp': "new_space (abort_with ?e parser) = Some space"
      using sp by (simp add: abort_with_def)
    have "sql_column_add_nullable_action (abort_with ?e parser) a =
            abort_with ?e (abort_with ?e parser)"
      using col' sp' no by (rule add_nullable_rejected)
    then show ?thesis
      unfolding q by (simp only: abort_with_twice)
  qed
qed

text \<open>
  C6, as amended. Declaring a nullability \<open>a\<close> a second time never changes the outcome of
  the first declaration. A declaration succeeds exactly when the action of the column is
  still the default or already is \<open>a\<close>: then the action becomes \<open>a\<close> and no error is set.
  When the column already has another action (set by an earlier NULL or NOT NULL clause, or
  by PRIMARY KEY, which makes its columns NOT NULL with the action abort), the declaration
  fails with \<^verbatim>\<open>ER_SQL\<close> "NULL declaration for column ... has been already set to ..." and
  leaves the table unchanged. In particular, on a column that accepts \<open>a\<close>, declaring a
  different \<open>b\<close> after \<open>a\<close> fails and the action of the column stays \<open>a\<close>.
\<close>

theorem nullable_action_twice:
  assumes col: "last_column parser = Some f" and sp: "new_space parser = Some space"
  shows "sql_column_add_nullable_action (sql_column_add_nullable_action parser a) a =
           sql_column_add_nullable_action parser a \<and>
         (fd_nullable_action f = ON_CONFLICT_ACTION_DEFAULT \<or> fd_nullable_action f = a \<longrightarrow>
            is_aborted (sql_column_add_nullable_action parser a) = is_aborted parser \<and>
            diag (sql_column_add_nullable_action parser a) = diag parser \<and>
            last_column (sql_column_add_nullable_action parser a) =
              Some (f\<lparr>fd_nullable_action := a, fd_is_nullable := action_is_nullable a\<rparr>) \<and>
            (a \<noteq> ON_CONFLICT_ACTION_DEFAULT \<and> b \<noteq> a \<longrightarrow>
               sql_column_add_nullable_action (sql_column_add_nullable_action parser a) b =
                 abort_with
                   (ER_SQL (''NULL declaration for column '' @ [CHR 0x27] @ fd_name f @
                            [CHR 0x27] @ '' of table '' @ [CHR 0x27] @ sd_name (sp_def space) @
                            [CHR 0x27] @ '' has been already set to '' @ [CHR 0x27] @
                            on_conflict_action_strs a @ [CHR 0x27]))
                   (sql_column_add_nullable_action parser a) \<and>
               last_column (sql_column_add_nullable_action
                              (sql_column_add_nullable_action parser a) b) =
                 Some (f\<lparr>fd_nullable_action := a, fd_is_nullable := action_is_nullable a\<rparr>))) \<and>
         (fd_nullable_action f \<noteq> ON_CONFLICT_ACTION_DEFAULT \<and> fd_nullable_action f \<noteq> a \<longrightarrow>
            sql_column_add_nullable_action parser a =
              abort_with
                (ER_SQL (''NULL declaration for column '' @ [CHR 0x27] @ fd_name f @
                         [CHR 0x27] @ '' of table '' @ [CHR 0x27] @ sd_name (sp_def space) @
                         [CHR 0x27] @ '' has been already set to '' @ [CHR 0x27] @
                         on_conflict_action_strs (fd_nullable_action f) @ [CHR 0x27]))
                parser \<and>
            last_column (sql_column_add_nullable_action parser a) = Some f)"
proof (intro conjI impI)
  show "sql_column_add_nullable_action (sql_column_add_nullable_action parser a) a =
           sql_column_add_nullable_action parser a"
    by (rule add_nullable_idem)
next
  assume ok: "fd_nullable_action f = ON_CONFLICT_ACTION_DEFAULT \<or> fd_nullable_action f = a"
  show "is_aborted (sql_column_add_nullable_action parser a) = is_aborted parser"
    using col ok by (rule add_nullable_accepted(2))
  show "diag (sql_column_add_nullable_action parser a) = diag parser"
    using col ok by (rule add_nullable_accepted(3))
  show "last_column (sql_column_add_nullable_action parser a) =
              Some (f\<lparr>fd_nullable_action := a, fd_is_nullable := action_is_nullable a\<rparr>)"
    using col ok by (rule add_nullable_accepted(1))
next
  let ?q = "sql_column_add_nullable_action parser a"
  let ?f' = "f\<lparr>fd_nullable_action := a, fd_is_nullable := action_is_nullable a\<rparr>"
  assume ok: "fd_nullable_action f = ON_CONFLICT_ACTION_DEFAULT \<or> fd_nullable_action f = a"
    and ne: "a \<noteq> ON_CONFLICT_ACTION_DEFAULT \<and> b \<noteq> a"
  have col': "last_column ?q = Some ?f'"
    using col ok by (rule add_nullable_accepted(1))
  from col' obtain space' where sp': "new_space ?q = Some space'"
    by (auto simp: last_column_def split: option.splits)
  have "sd_name (sp_def space') = sd_name (sp_def space)"
    using add_nullable_accepted(4) [OF col ok] sp sp' by simp
  moreover have "fd_nullable_action ?f' \<noteq> ON_CONFLICT_ACTION_DEFAULT"
    "fd_nullable_action ?f' \<noteq> b"
    using ne by auto
  ultimately show rej: "sql_column_add_nullable_action ?q b =
      abort_with
        (ER_SQL (''NULL declaration for column '' @ [CHR 0x27] @ fd_name f @
                 [CHR 0x27] @ '' of table '' @ [CHR 0x27] @ sd_name (sp_def space) @
                 [CHR 0x27] @ '' has been already set to '' @ [CHR 0x27] @
                 on_conflict_action_strs a @ [CHR 0x27])) ?q"
    using add_nullable_rejected [OF col' sp'] by simp
  show "last_column (sql_column_add_nullable_action ?q b) = Some ?f'"
    unfolding rej using col' by (simp add: last_column_def abort_with_def)
next
  assume no: "fd_nullable_action f \<noteq> ON_CONFLICT_ACTION_DEFAULT \<and> fd_nullable_action f \<noteq> a"
  then show rej: "sql_column_add_nullable_action parser a =
      abort_with
        (ER_SQL (''NULL declaration for column '' @ [CHR 0x27] @ fd_name f @
                 [CHR 0x27] @ '' of table '' @ [CHR 0x27] @ sd_name (sp_def space) @
                 [CHR 0x27] @ '' has been already set to '' @ [CHR 0x27] @
                 on_conflict_action_strs (fd_nullable_action f) @ [CHR 0x27])) parser"
    using add_nullable_rejected [OF col sp] by simp
  show "last_column (sql_column_add_nullable_action parser a) = Some f"
    unfolding rej using col by (simp add: last_column_def abort_with_def)
qed

theorem nullable_action_twice_witness:
  "last_column draft_t_a = Some column_a \<and> new_space draft_t_a = Some space_t_a \<and>
   sql_column_add_nullable_action
     (sql_column_add_nullable_action draft_t_a ON_CONFLICT_ACTION_ABORT)
     ON_CONFLICT_ACTION_ABORT =
     sql_column_add_nullable_action draft_t_a ON_CONFLICT_ACTION_ABORT \<and>
   \<not> is_aborted (sql_column_add_nullable_action draft_t_a ON_CONFLICT_ACTION_ABORT) \<and>
   last_column (sql_column_add_nullable_action draft_t_a ON_CONFLICT_ACTION_ABORT) =
     Some (column_a\<lparr>fd_nullable_action := ON_CONFLICT_ACTION_ABORT, fd_is_nullable := False\<rparr>) \<and>
   sql_column_add_nullable_action
     (sql_column_add_nullable_action draft_t_a ON_CONFLICT_ACTION_ABORT)
     ON_CONFLICT_ACTION_NONE =
     abort_with
       (ER_SQL (''NULL declaration for column 'A' of table 'T' has been already set to 'abort'' @
                [CHR 0x27]))
       (sql_column_add_nullable_action draft_t_a ON_CONFLICT_ACTION_ABORT)"
proof -
  have col: "last_column draft_t_a = Some column_a"
    by (simp add: last_column_def column_a_def sample_defs)
  have sp: "new_space draft_t_a = Some space_t_a"
    by (simp add: space_t_a_def column_a_def sample_defs)
  have ab: "\<not> is_aborted draft_t_a"
    by (simp add: sample_defs)
  from nullable_action_twice [OF col sp, of ON_CONFLICT_ACTION_ABORT ON_CONFLICT_ACTION_NONE]
    col sp ab
  show ?thesis
    by (simp add: column_a_def space_t_a_def action_is_nullable_def)
qed

text \<open>
  The claim as stated fails on a column that PRIMARY KEY has made NOT NULL: in
  \<^verbatim>\<open>CREATE TABLE t(a INT PRIMARY KEY NULL NULL)\<close> the same nullability is declared twice, and
  already the first declaration fails.
\<close>

theorem nullable_after_primary_key_counterexample:
  "sqlAddPrimaryKey env0 draft_t_a None None = Inr draft_t_a_pk \<and>
   \<not> is_aborted draft_t_a_pk \<and>
   map_option fd_nullable_action (last_column draft_t_a_pk) = Some ON_CONFLICT_ACTION_ABORT \<and>
   is_aborted (sql_column_add_nullable_action draft_t_a_pk ON_CONFLICT_ACTION_NONE) \<and>
   diag (sql_column_add_nullable_action draft_t_a_pk ON_CONFLICT_ACTION_NONE) =
     Some (ER_SQL (''NULL declaration for column 'A' of table 'T' has been already set to 'abort'' @
                   [CHR 0x27])) \<and>
   is_aborted (sql_column_add_nullable_action
                 (sql_column_add_nullable_action draft_t_a_pk ON_CONFLICT_ACTION_NONE)
                 ON_CONFLICT_ACTION_NONE)"
  by (simp add: draft_t_a_pk_def last_column_def sql_column_add_nullable_action_def
        sample_defs index_defs cong: let_weak_cong)


subsection \<open>Column lists and the indexes of a table under construction\<close>

lemma field_index_name:
  "field_index fs z = Some i \<Longrightarrow> i < length fs \<and> fd_name (fs ! i) = z"
proof (induction fs arbitrary: i)
  case Nil
  then show ?case by simp
next
  case (Cons f fs)
  show ?case
  proof (cases "z = fd_name f")
    case True
    with Cons.prems show ?thesis by simp
  next
    case False
    with Cons.prems obtain j where j: "field_index fs z = Some j" "i = Suc j"
      by auto
    with Cons.IH [OF j(1)] show ?thesis by simp
  qed
qed

lemma index_fill_parts_new_space:
  "new_space (fst (index_fill_parts env p def cols)) = new_space p"
proof (induction cols arbitrary: p)
  case Nil
  show ?case by simp
next
  case (Cons e es)
  show ?case
    by (auto simp: Cons.IH [THEN trans] sql_resolve_self_reference_def
          index_part_coll_id_def sql_get_coll_seq_def abort_with_def Let_def
          dest: arg_cong [where f = fst, OF sym]
          split: prod.splits option.splits Expr.splits if_splits)
qed


lemma index_fill_parts_positions:
  "index_fill_parts env p def cols = (p', Some parts) \<Longrightarrow>
   column_positions def cols = Some (map fieldno parts)"
proof (induction cols arbitrary: p p' parts)
  case Nil
  then show ?case by simp
next
  case (Cons e es)
  from Cons.prems obtain i where i: "column_position def e = Some i"
    by (auto simp: sql_resolve_self_reference_def column_position_def abort_with_def
          split: prod.splits option.splits Expr.splits if_splits)
  from Cons.prems obtain pa pb part ps where
    rest: "index_fill_parts env pa def es = (pb, Some ps)" and
    parts: "parts = part # ps" and fno: "fieldno part = i"
    using i
    by (auto simp: sql_resolve_self_reference_def column_position_def abort_with_def Let_def
          split: prod.splits option.splits Expr.splits if_splits)
  from Cons.IH [OF rest] i parts fno show ?case
    by simp
qed

lemma first_occurrences_fieldno:
  "map fieldno (first_occurrences ps) = first_positions (map fieldno ps)"
proof (induction ps rule: first_occurrences.induct)
  case 1
  show ?case by simp
next
  case (2 p ps)
  have "filter (\<lambda>j. j \<noteq> fieldno p) (map fieldno ps) =
        map fieldno (filter (\<lambda>q. fieldno q \<noteq> fieldno p) ps)"
    by (simp add: filter_map comp_def)
  with 2 show ?case by simp
qed

lemma key_parts_cmp_fieldno:
  "length as = length bs \<Longrightarrow> key_parts_cmp as bs k = k + length as \<Longrightarrow>
   map fieldno as = map fieldno bs"
proof (induction as bs arbitrary: k rule: list_induct2)
  case Nil
  show ?case by simp
next
  case (Cons a as b bs)
  from Cons.prems have eq: "fieldno a = fieldno b" "coll a = coll b"
    by (auto split: if_splits)
  with Cons.prems have "key_parts_cmp as bs (k + 1) = (k + 1) + length as"
    by simp
  from Cons.IH [OF this] eq show ?case by simp
qed

lemma redundant_index_loop_pk:
  "redundant_index_loop SQL_INDEX_TYPE_CONSTRAINT_PK index idxs = Some idxs' \<Longrightarrow>
   \<exists>pre e rest. idxs = pre @ e # rest \<and> idxs' = pre @ e\<lparr>iid := 0\<rparr> # rest \<and>
     map fieldno (idx_parts e) = map fieldno (idx_parts index)"
proof (induction idxs arbitrary: idxs')
  case Nil
  then show ?case by simp
next
  case (Cons x xs)
  show ?case
  proof (cases "length (idx_parts index) = length (idx_parts x) \<and>
                key_parts_cmp (idx_parts index) (idx_parts x) 0 = length (idx_parts index) \<and>
                iid x \<noteq> 0 \<and> \<not> constraint_is_named (idx_name x)")
    case True
    then have fn: "map fieldno (idx_parts x) = map fieldno (idx_parts index)"
      using key_parts_cmp_fieldno [of "idx_parts index" "idx_parts x" 0] by simp
    from True Cons.prems have "idxs' = x\<lparr>iid := 0\<rparr> # xs"
      by simp
    then have "x # xs = [] @ x # xs \<and> idxs' = [] @ x\<lparr>iid := 0\<rparr> # xs \<and>
               map fieldno (idx_parts x) = map fieldno (idx_parts index)"
      using fn by simp
    then show ?thesis by blast
  next
    case False
    with Cons.prems obtain ys where ys:
      "redundant_index_loop SQL_INDEX_TYPE_CONSTRAINT_PK index xs = Some ys" "idxs' = x # ys"
      by (auto split: if_splits)
    from Cons.IH [OF ys(1)] obtain pre e rest where
      "xs = pre @ e # rest" "ys = pre @ e\<lparr>iid := 0\<rparr> # rest"
      "map fieldno (idx_parts e) = map fieldno (idx_parts index)"
      by blast
    with ys(2) have "x # xs = (x # pre) @ e # rest \<and> idxs' = (x # pre) @ e\<lparr>iid := 0\<rparr> # rest \<and>
               map fieldno (idx_parts e) = map fieldno (idx_parts index)"
      by simp
    then show ?thesis by blast
  qed
qed

subsection \<open>Repeated columns of a key\<close>

lemma dedup_find_le:
  "j \<le> npc \<Longrightarrow> dedup_find parts i j npc \<le> npc"
proof (induction parts i j npc rule: dedup_find.induct)
  case (1 parts i j npc)
  then show ?case
    by (subst dedup_find.simps) auto
qed

lemma dedup_find_miss:
  "j \<le> npc \<Longrightarrow>
   (dedup_find parts i j npc = npc) =
     (\<forall>k. j \<le> k \<and> k < npc \<longrightarrow> fieldno (parts ! k) \<noteq> fieldno (parts ! i))"
proof (induction parts i j npc rule: dedup_find.induct)
  case (1 parts i j npc)
  show ?case
  proof (cases "j < npc")
    case False
    with 1(2) show ?thesis
      by (subst dedup_find.simps) auto
  next
    case lt: True
    show ?thesis
    proof (cases "fieldno (parts ! i) = fieldno (parts ! j)")
      case True
      with lt show ?thesis
        by (subst dedup_find.simps) auto
    next
      case False
      with lt have IH: "(dedup_find parts i (j + 1) npc = npc) =
         (\<forall>k. j + 1 \<le> k \<and> k < npc \<longrightarrow> fieldno (parts ! k) \<noteq> fieldno (parts ! i))"
        using 1(1) by simp
      have "(\<forall>k. j \<le> k \<and> k < npc \<longrightarrow> fieldno (parts ! k) \<noteq> fieldno (parts ! i)) =
            (\<forall>k. j + 1 \<le> k \<and> k < npc \<longrightarrow> fieldno (parts ! k) \<noteq> fieldno (parts ! i))"
        using False by (metis Suc_eq_plus1 Suc_leI le_eq_less_or_eq Suc_leD)
      with IH lt False show ?thesis
        by (subst dedup_find.simps) simp
    qed
  qed
qed

lemma dedup_find_miss_set:
  assumes "npc \<le> length parts"
  shows "(dedup_find parts i 0 npc = npc) =
           (fieldno (parts ! i) \<notin> fieldno ` set (take npc parts))"
proof -
  have "(\<forall>k. k < npc \<longrightarrow> fieldno (parts ! k) \<noteq> fieldno (parts ! i)) =
        (fieldno (parts ! i) \<notin> fieldno ` set (take npc parts))"
  proof
    assume a: "\<forall>k. k < npc \<longrightarrow> fieldno (parts ! k) \<noteq> fieldno (parts ! i)"
    show "fieldno (parts ! i) \<notin> fieldno ` set (take npc parts)"
    proof
      assume "fieldno (parts ! i) \<in> fieldno ` set (take npc parts)"
      then obtain q where q: "q \<in> set (take npc parts)" "fieldno q = fieldno (parts ! i)"
        by auto
      then obtain k where "k < length (take npc parts)" "take npc parts ! k = q"
        by (auto simp: in_set_conv_nth)
      with assms a q show False by auto
    qed
  next
    assume b: "fieldno (parts ! i) \<notin> fieldno ` set (take npc parts)"
    show "\<forall>k. k < npc \<longrightarrow> fieldno (parts ! k) \<noteq> fieldno (parts ! i)"
    proof (intro allI impI)
      fix k assume "k < npc"
      with assms have "parts ! k \<in> set (take npc parts)"
        by (metis length_take min.absorb2 nth_mem nth_take)
      then have "fieldno (parts ! k) \<in> fieldno ` set (take npc parts)"
        by (rule imageI)
      with b show "fieldno (parts ! k) \<noteq> fieldno (parts ! i)"
        by metis
    qed
  qed
  then show ?thesis
    by (simp add: dedup_find_miss)
qed

lemma dedup_loop_inv:
  "npc \<le> i \<Longrightarrow> i \<le> length parts \<Longrightarrow> n = length parts \<Longrightarrow>
   (case dedup_loop parts i npc n of (parts', m) \<Rightarrow> take m parts') =
     take npc parts @
       first_occurrences
         (filter (\<lambda>q. fieldno q \<notin> fieldno ` set (take npc parts)) (drop i parts))"
proof (induction parts i npc n rule: dedup_loop.induct)
  case (1 parts i npc n)
  show ?case
  proof (cases "i < n")
    case False
    with 1(4,5) show ?thesis
      by (subst dedup_loop.simps) simp
  next
    case lt: True
    with 1(5) have il: "i < length parts" by simp
    have dr: "drop i parts = parts ! i # drop (Suc i) parts"
      using il by (simp add: Cons_nth_drop_Suc)
    have npcl: "npc \<le> length parts" using 1(3) il by simp
    show ?thesis
    proof (cases "dedup_find parts i 0 npc = npc")
      case miss: True
      then have notin: "fieldno (parts ! i) \<notin> fieldno ` set (take npc parts)"
        using npcl by (simp add: dedup_find_miss_set)
      let ?parts' = "parts[npc := parts ! i]"
      have tk: "take (npc + 1) ?parts' = take npc parts @ [parts ! i]"
        using 1(3) il by (simp add: take_Suc_conv_app_nth)
      have dp: "drop (i + 1) ?parts' = drop (Suc i) parts"
        using 1(3) by simp
      have IH: "(case dedup_loop ?parts' (i + 1) (npc + 1) n of (parts', m) \<Rightarrow> take m parts') =
         take (npc + 1) ?parts' @
           first_occurrences
             (filter (\<lambda>q. fieldno q \<notin> fieldno ` set (take (npc + 1) ?parts'))
                (drop (i + 1) ?parts'))"
        using 1(1)[OF lt miss] 1(3) il 1(5) by simp
      have flt: "filter (\<lambda>q. fieldno q \<notin> fieldno ` set (take npc parts @ [parts ! i]))
                   (drop (Suc i) parts) =
                 filter (\<lambda>q. fieldno q \<noteq> fieldno (parts ! i))
                   (filter (\<lambda>q. fieldno q \<notin> fieldno ` set (take npc parts))
                      (drop (Suc i) parts))"
        by (auto intro: filter_cong)
      have "dedup_loop parts i npc n = dedup_loop ?parts' (i + 1) (npc + 1) n"
        using lt miss by (subst dedup_loop.simps) simp
      then show ?thesis
        using IH tk dp flt notin dr by simp
    next
      case hit: False
      then have isin: "fieldno (parts ! i) \<in> fieldno ` set (take npc parts)"
        using npcl by (simp add: dedup_find_miss_set)
      have IH: "(case dedup_loop parts (i + 1) npc n of (parts', m) \<Rightarrow> take m parts') =
         take npc parts @
           first_occurrences
             (filter (\<lambda>q. fieldno q \<notin> fieldno ` set (take npc parts)) (drop (i + 1) parts))"
        using 1(2)[OF lt hit] 1(3) il 1(5) by simp
      have "dedup_loop parts i npc n = dedup_loop parts (i + 1) npc n"
        using lt hit by (subst dedup_loop.simps) simp
      then show ?thesis
        using IH isin dr by simp
    qed
  qed
qed


lemma remove_redundant_parts_first_occurrences:
  "remove_redundant_parts parts = first_occurrences parts"
proof (cases parts)
  case Nil
  then show ?thesis
    by (simp add: remove_redundant_parts_def dedup_loop.simps)
next
  case (Cons p ps)
  have "(case dedup_loop parts 1 1 (length parts) of (parts', m) \<Rightarrow> take m parts') =
          take 1 parts @
            first_occurrences
              (filter (\<lambda>q. fieldno q \<notin> fieldno ` set (take 1 parts)) (drop 1 parts))"
    using Cons by (intro dedup_loop_inv) (auto simp: Suc_le_eq)
  then show ?thesis
    by (simp add: remove_redundant_parts_def Cons)
qed

lemma sqlCheckIdentifierName_new_space:
  "new_space (fst (sqlCheckIdentifierName env p n)) = new_space p"
  by (simp add: sqlCheckIdentifierName_def abort_with_def split: option.splits)

lemma table_add_index_pk:
  "iid index = 0 \<Longrightarrow> sql_space_primary_key (table_add_index space index) = Some index"
  by (simp add: table_add_index_def sql_space_primary_key_def Let_def)

lemma table_add_index_def_same:
  "sp_def (table_add_index space index) = sp_def space"
  by (simp add: table_add_index_def Let_def)

text \<open>
  What \<^verbatim>\<open>sql_create_index\<close> leaves as the primary key of a table that had none: the index
  it has built, or an index repurposed from a UNIQUE constraint on the same columns.
\<close>

lemma sql_create_index_pk_parts:
  assumes sp: "new_space p = Some space"
    and nopk: "sql_space_primary_key space = None"
    and res: "sql_create_index env p (Some cols) SQL_INDEX_TYPE_CONSTRAINT_PK cname = Inr q1"
    and sp1: "new_space q1 = Some space1"
    and pk: "sql_space_primary_key space1 = Some pk"
  shows "\<exists>poss. column_positions (sp_def space) cols = Some poss \<and>
           map fieldno (idx_parts pk) = first_positions poss"
    and "sp_def space1 = sp_def space"
proof -
  define def where "def = sp_def space"
  define name where "name = constraint_index_name SQL_INDEX_TYPE_CONSTRAINT_PK cname
                              (sd_name def) (length (sp_index space))"
  obtain pa rc where chk: "sqlCheckIdentifierName env p name = (pa, rc)"
    by (cases "sqlCheckIdentifierName env p name")
  have ns_a: "new_space pa = Some space"
    using sqlCheckIdentifierName_new_space [of env p name] chk sp by simp
  define pb where "pb = fst (index_col_list pa def (Some cols))"
  have cl: "index_col_list pa def (Some cols) = (pb, cols)"
    by (simp add: pb_def index_col_list_def)
  have ns_b: "new_space pb = Some space"
    using ns_a by (simp add: pb_def index_col_list_def abort_with_def)
  obtain pc r where fill: "index_fill_parts env pb def cols = (pc, r)"
    by (cases "index_fill_parts env pb def cols")
  have ns_c: "new_space pc = Some space"
    using index_fill_parts_new_space [of env pb def cols] fill ns_b by simp
  have differs: "new_space q1 \<noteq> Some space"
    using sp1 pk nopk by auto
  have ns_abort: "\<And>e. new_space (abort_with e p) = Some space"
    using sp by (simp add: abort_with_def)
  from res differs obtain parts where r: "r = Some parts"
    using sp ns_a ns_c ns_abort
    by (cases r)
      (auto simp: sql_create_index_def Let_def def_def [symmetric] name_def [symmetric] chk cl
         fill index_fill_def_def split: if_splits)
  have poss: "column_positions def cols = Some (map fieldno parts)"
    using fill r by (simp add: index_fill_parts_positions)
  define index where "index = \<lparr>iid = 0, idx_name = name, idx_is_unique = True,
                               idx_parts = remove_redundant_parts parts\<rparr>"
  have fn: "map fieldno (idx_parts index) = first_positions (map fieldno parts)"
    by (simp add: index_def remove_redundant_parts_first_occurrences first_occurrences_fieldno)
  have cases: "(\<exists>idxs. redundant_index_loop SQL_INDEX_TYPE_CONSTRAINT_PK index (sp_index space) =
                         Some idxs \<and> q1 = pc\<lparr>new_space := Some (space\<lparr>sp_index := idxs\<rparr>)\<rparr>) \<or>
               q1 = pc\<lparr>new_space := Some (table_add_index space index)\<rparr>"
    using res differs sp ns_a ns_c ns_abort
    by (auto simp: sql_create_index_def Let_def def_def [symmetric] name_def [symmetric] chk cl
         fill r index_fill_def_def index_def split: if_splits option.splits)
  then have "map fieldno (idx_parts pk) = first_positions (map fieldno parts) \<and>
             sp_def space1 = sp_def space"
  proof
    assume "\<exists>idxs. redundant_index_loop SQL_INDEX_TYPE_CONSTRAINT_PK index (sp_index space) =
                         Some idxs \<and> q1 = pc\<lparr>new_space := Some (space\<lparr>sp_index := idxs\<rparr>)\<rparr>"
    then obtain idxs where idxs:
      "redundant_index_loop SQL_INDEX_TYPE_CONSTRAINT_PK index (sp_index space) = Some idxs"
      "q1 = pc\<lparr>new_space := Some (space\<lparr>sp_index := idxs\<rparr>)\<rparr>"
      by blast
    from redundant_index_loop_pk [OF idxs(1)] obtain pre e rest where
      pre: "sp_index space = pre @ e # rest" "idxs = pre @ e\<lparr>iid := 0\<rparr> # rest"
        "map fieldno (idx_parts e) = map fieldno (idx_parts index)"
      by blast
    have s1: "space1 = space\<lparr>sp_index := idxs\<rparr>"
      using idxs(2) sp1 by simp
    have "pre = []"
    proof (rule ccontr)
      assume "pre \<noteq> []"
      then obtain x xs where "pre = x # xs" by (cases pre) auto
      with pre(1,2) nopk pk s1 show False
        by (simp add: sql_space_primary_key_def split: if_splits)
    qed
    with pre(2) pk s1 have "pk = e\<lparr>iid := 0\<rparr>"
      by (simp add: sql_space_primary_key_def)
    with pre(3) fn s1 show ?thesis
      by simp
  next
    assume "q1 = pc\<lparr>new_space := Some (table_add_index space index)\<rparr>"
    with sp1 have s1: "space1 = table_add_index space index"
      by simp
    have "sql_space_primary_key space1 = Some index"
      unfolding s1 by (rule table_add_index_pk) (simp add: index_def)
    with pk have "pk = index" by simp
    with fn s1 show ?thesis
      by (simp add: table_add_index_def_same)
  qed
  with poss show "\<exists>poss. column_positions (sp_def space) cols = Some poss \<and>
           map fieldno (idx_parts pk) = first_positions poss"
    by (simp add: def_def)
  from \<open>map fieldno (idx_parts pk) = first_positions (map fieldno parts) \<and>
             sp_def space1 = sp_def space\<close>
  show "sp_def space1 = sp_def space" by simp
qed

lemma pk_finish_primary_key:
  assumes "pk_finish p = Inr q"
  shows "\<exists>space pk. new_space p = Some space \<and> sql_space_primary_key space = Some pk \<and>
           (\<exists>space'. new_space q = Some space' \<and> sp_index space' = sp_index space)"
proof -
  from assms obtain space where sp: "new_space p = Some space"
    by (auto simp: pk_finish_def split: option.splits)
  from assms sp obtain pk where pk: "sql_space_primary_key space = Some pk"
    by (auto simp: pk_finish_def split: option.splits)
  obtain p' fs' where loop: "pk_fields_loop p (sd_fields (sp_def space)) (sd_name (sp_def space))
                       (idx_parts pk) = (p', fs')"
    by (cases "pk_fields_loop p (sd_fields (sp_def space)) (sd_name (sp_def space))
                       (idx_parts pk)")
  from assms sp pk loop
  have "q = p'\<lparr>new_space := Some (space\<lparr>sp_def := (sp_def space)\<lparr>sd_fields := fs'\<rparr>\<rparr>)\<rparr>"
    by (simp add: pk_finish_def)
  then have "new_space q = Some (space\<lparr>sp_def := (sp_def space)\<lparr>sd_fields := fs'\<rparr>\<rparr>) \<and>
             sp_index (space\<lparr>sp_def := (sp_def space)\<lparr>sd_fields := fs'\<rparr>\<rparr>) = sp_index space"
    by simp
  with sp pk show ?thesis by blast
qed

lemma primary_key_same_indexes:
  "sp_index s' = sp_index s \<Longrightarrow> sql_space_primary_key s' = sql_space_primary_key s"
  by (simp add: sql_space_primary_key_def)

lemma pk_columns_single:
  assumes "pk_columns space (Some cols) = Inr (Some i, 1)"
  shows "column_positions (sp_def space) cols = Some [i] \<and>
         column_positions (sp_def space) [TK_ID (fd_name (sd_fields (sp_def space) ! i))] =
           Some [i]"
proof -
  from assms obtain e where cols: "cols = [e]"
    by (cases cols) (auto simp: pk_columns_def split: sum.splits)
  from assms cols obtain z where z: "sqlExprSkipCollate e = TK_ID z"
    "field_index (sd_fields (sp_def space)) z = Some i"
    by (auto simp: pk_columns_def split: sum.splits Expr.splits option.splits)
  from field_index_name [OF z(2)] have "fd_name (sd_fields (sp_def space) ! i) = z"
    by simp
  with z cols show ?thesis
    by (simp add: column_position_def)
qed

text \<open>
  C5. When \<^verbatim>\<open>sqlAddPrimaryKey\<close> accepts the column list of a PRIMARY KEY clause, the table
  has a primary key index whose key parts are on the first occurrence of each field position
  of the list, later repeats dropped and the order kept: this holds for the index that
  \<^verbatim>\<open>sql_create_index\<close> builds and for a UNIQUE index on the same columns that it turns into
  the primary key. PRIMARY KEY(b,a,b,c,a) on the columns a, b, c (positions 0, 1, 2)
  yields the key parts b, a, c.
\<close>

theorem pk_parts_keep_first_occurrences:
  assumes sp: "new_space p = Some space"
    and res: "sqlAddPrimaryKey env p (Some cols) cname = Inr q"
    and ok: "\<not> is_aborted q"
  shows "\<exists>space' pk poss.
           new_space q = Some space' \<and> sql_space_primary_key space' = Some pk \<and>
           column_positions (sp_def space) cols = Some poss \<and>
           map fieldno (idx_parts pk) = first_positions poss"
proof -
  have nopk: "sql_space_primary_key space = None"
    using sp res ok by (auto simp: sqlAddPrimaryKey_def abort_with_def split: if_splits)
  from sp res ok nopk obtain iCol where cols: "pk_columns space (Some cols) = Inr (iCol, length cols)"
    by (auto simp: sqlAddPrimaryKey_def pk_columns_def abort_with_def split: sum.splits)
  define single where "single \<longleftrightarrow> length cols = 1 \<and> iCol \<noteq> None \<and>
     fd_type (sd_fields (sp_def space) ! the iCol) = FIELD_TYPE_INTEGER"
  define cols' where "cols' = (if single
     then [TK_ID (fd_name (sd_fields (sp_def space) ! the iCol))] else cols)"
  from sp res ok nopk cols obtain q1 where
    q1: "sql_create_index env p (Some cols') SQL_INDEX_TYPE_CONSTRAINT_PK cname = Inr q1"
      "pk_finish q1 = Inr q"
    by (auto simp: sqlAddPrimaryKey_def abort_with_def single_def cols'_def
          split: if_splits sum.splits)
  from pk_finish_primary_key [OF q1(2)] obtain space1 pk space' where
    s1: "new_space q1 = Some space1" "sql_space_primary_key space1 = Some pk"
      "new_space q = Some space'" "sp_index space' = sp_index space1"
    by blast
  from sql_create_index_pk_parts(1) [OF sp nopk q1(1) s1(1,2)] obtain poss where
    poss: "column_positions (sp_def space) cols' = Some poss"
      "map fieldno (idx_parts pk) = first_positions poss"
    by blast
  have same: "column_positions (sp_def space) cols = column_positions (sp_def space) cols'"
  proof (cases single)
    case False
    then show ?thesis by (simp add: cols'_def)
  next
    case True
    then obtain i where "iCol = Some i" "length cols = 1"
      by (auto simp: single_def)
    with cols have "pk_columns space (Some cols) = Inr (Some i, 1)"
      by simp
    from pk_columns_single [OF this] True \<open>iCol = Some i\<close> show ?thesis
      by (simp add: cols'_def)
  qed
  have "sql_space_primary_key space' = Some pk"
    using primary_key_same_indexes [OF s1(4)] s1(2) by simp
  with s1(3) poss same show ?thesis
    by simp
qed

theorem pk_parts_keep_first_occurrences_witness:
  "sqlAddPrimaryKey env0 draft_t_abc (Some pk_cols_babca) None = Inr draft_t_abc_pk \<and>
   \<not> is_aborted draft_t_abc_pk \<and>
   column_positions (sp_def (the (new_space draft_t_abc))) pk_cols_babca = Some [1, 0, 1, 2, 0] \<and>
   (\<exists>space' pk.
      new_space draft_t_abc_pk = Some space' \<and> sql_space_primary_key space' = Some pk \<and>
      map fieldno (idx_parts pk) = [1, 0, 2])"
proof -
  have sp: "new_space draft_t_abc = Some (the (new_space draft_t_abc))"
    by (simp add: sample_defs)
  have res: "sqlAddPrimaryKey env0 draft_t_abc (Some pk_cols_babca) None = Inr draft_t_abc_pk"
    by (simp add: draft_t_abc_pk_def pk_cols_babca_def sample_defs index_defs cong: let_weak_cong)
  have ok: "\<not> is_aborted draft_t_abc_pk"
    by (simp add: draft_t_abc_pk_def pk_cols_babca_def sample_defs index_defs cong: let_weak_cong)
  have poss: "column_positions (sp_def (the (new_space draft_t_abc))) pk_cols_babca =
                Some [1, 0, 1, 2, 0]"
    by (simp add: pk_cols_babca_def column_position_def sample_defs)
  from pk_parts_keep_first_occurrences [OF sp res ok] poss res ok
  show ?thesis
    by auto
qed

subsection \<open>Code generation appends instructions and saves records\<close>


text \<open>A step that appends instructions and saves no record keeps the ledger.\<close>

lemma ledger_ok_append:
  assumes "ledger_ok p" "aOp q = aOp p @ ops" "record_list q = record_list p"
  shows "ledger_ok q"
  using assms by (auto simp: ledger_ok_def nth_append)





text \<open>Instructions without an insertion, no record.\<close>

lemma emit_step_plain:
  assumes "aOp q = aOp p @ ops" "\<forall>op \<in> set ops. opcode op \<noteq> OP_SInsert"
    and "record_list q = record_list p" "is_aborted p \<longrightarrow> is_aborted q"
    and "new_space q = new_space p" "has_autoinc q = has_autoinc p"
    and "new_fkey q = new_fkey p" "new_check q = new_check p"
    and "initiateTTrans q = initiateTTrans p"
  shows "emit_step 0 0 p q"
proof -
  have l: "ledger_ok p \<longrightarrow> ledger_ok q"
    using ledger_ok_append [OF _ assms(1) assms(3)] by blast
  have i: "index_inserts ops = 0"
    using assms(2) by (auto simp: index_inserts_def filter_empty_conv)
  show ?thesis
    unfolding emit_step_def
    apply (rule exI [of _ ops])
    apply (rule exI [of _ "[]"])
    using assms l i by simp
qed



lemma emit_step_plainI:
  assumes "aOp q = aOp p @ drop (length (aOp p)) (aOp q)"
    and "\<forall>op \<in> set (drop (length (aOp p)) (aOp q)). opcode op \<noteq> OP_SInsert"
    and "record_list q = record_list p" "is_aborted q = is_aborted p"
    and "new_space q = new_space p" "has_autoinc q = has_autoinc p"
    and "new_fkey q = new_fkey p" "new_check q = new_check p"
    and "initiateTTrans q = initiateTTrans p"
  shows "emit_step 0 0 p q"
  using assms by (intro emit_step_plain [where ops = "drop (length (aOp p)) (aOp q)"]) simp_all














lemma resolve_link_cases:
  "resolve_link p def c n = (p, Some j) \<or>
   (\<exists>e. resolve_link p def c n = (abort_with e p, None))"
  if "field_index (sd_fields def) c = Some j \<or> field_index (sd_fields def) c = None"
  using that by (auto simp: resolve_link_def)





subsection \<open>The program and the saved records of CREATE TABLE\<close>






subsection \<open>Tables without a primary key, and the index row of the primary key\<close>

text \<open>
  C7. When the table under construction has no primary key, \<^verbatim>\<open>sqlEndTable\<close> sets the error
  \<^verbatim>\<open>ER_CREATE_SPACE\<close> "PRIMARY KEY missing", marks the statement as aborted and returns
  before it emits anything: the program and the list of saved records are as they were, so no
  row of \<^verbatim>\<open>_space\<close>, \<^verbatim>\<open>_index\<close>, \<^verbatim>\<open>_sequence\<close> or of the constraint spaces is inserted.
\<close>

theorem end_table_without_primary_key:
  assumes "new_space p = Some space" and "\<not> sd_is_view (sp_def space)"
    and "sql_space_primary_key space = None"
  shows "\<exists>q. sqlEndTable env p = Inr q \<and> is_aborted q \<and>
           diag q = Some (ER_CREATE_SPACE (sd_name (sp_def space)) ''PRIMARY KEY missing'') \<and>
           aOp q = aOp p \<and> record_list q = record_list p"
  using assms by (simp add: sqlEndTable_def abort_with_def)

theorem end_table_without_primary_key_witness:
  "sql_create_index env0 draft_t_ab (Some [TK_ID ''B'']) SQL_INDEX_TYPE_CONSTRAINT_UNIQUE None =
     Inr draft_t_ab_unique_b \<and>
   map_option (\<lambda>s. length (sp_index s)) (new_space draft_t_ab_unique_b) = Some 1 \<and>
   map_option sql_space_primary_key (new_space draft_t_ab_unique_b) = Some None \<and>
   (\<exists>q. sqlEndTable env0 draft_t_ab_unique_b = Inr q \<and> is_aborted q \<and>
      diag q = Some (ER_CREATE_SPACE ''T'' ''PRIMARY KEY missing'') \<and>
      aOp q = aOp parse_init \<and> record_list q = [])"
proof -
  have sp: "new_space draft_t_ab_unique_b = Some (the (new_space draft_t_ab_unique_b))"
    by (simp add: draft_t_ab_unique_b_def sample_defs index_defs cong: let_weak_cong)
  have nv: "\<not> sd_is_view (sp_def (the (new_space draft_t_ab_unique_b)))"
    by (simp add: draft_t_ab_unique_b_def sample_defs index_defs cong: let_weak_cong)
  have nopk: "sql_space_primary_key (the (new_space draft_t_ab_unique_b)) = None"
    by (simp add: draft_t_ab_unique_b_def sample_defs index_defs cong: let_weak_cong)
  have res: "sql_create_index env0 draft_t_ab (Some [TK_ID ''B''])
               SQL_INDEX_TYPE_CONSTRAINT_UNIQUE None = Inr draft_t_ab_unique_b"
    by (simp add: draft_t_ab_unique_b_def sample_defs index_defs cong: let_weak_cong)
  have facts: "sd_name (sp_def (the (new_space draft_t_ab_unique_b))) = ''T''"
    "length (sp_index (the (new_space draft_t_ab_unique_b))) = 1"
    "aOp draft_t_ab_unique_b = aOp parse_init" "record_list draft_t_ab_unique_b = []"
    by (simp_all add: draft_t_ab_unique_b_def sample_defs index_defs cong: let_weak_cong)
  from end_table_without_primary_key [OF sp nv nopk, of env0] res facts nopk sp
  show ?thesis
    by (metis (no_types, lifting) option.simps(9))
qed






subsection \<open>DROP TABLE and foreign keys\<close>





subsection \<open>The slot of the primary key index\<close>

text \<open>
  C9 fails in the code for \<^verbatim>\<open>CREATE TABLE t(a INT, b INT, UNIQUE(b), UNIQUE(a), PRIMARY KEY(a))\<close>.
  The PRIMARY KEY clause finds the index of UNIQUE(a) in slot 1 and makes it the primary key
  by setting its id to 0 where it is: the index with id 0 is then in slot 1, behind the index
  of UNIQUE(b). \<^verbatim>\<open>sql_space_primary_key\<close>, which looks at slot 0 only, finds no primary key,
  and the assertion \<^verbatim>\<open>pk != NULL\<close> of \<^verbatim>\<open>sqlAddPrimaryKey\<close> fails.
\<close>

theorem primary_key_behind_unique_index:
  "sql_create_index env0 draft_t_ab (Some [TK_ID ''B'']) SQL_INDEX_TYPE_CONSTRAINT_UNIQUE None =
     Inr draft_t_ab_unique_b \<and>
   sql_create_index env0 draft_t_ab_unique_b (Some [TK_ID ''A''])
     SQL_INDEX_TYPE_CONSTRAINT_UNIQUE None = Inr draft_t_ab_unique_b_a \<and>
   \<not> is_aborted draft_t_ab_unique_b_a \<and>
   map_option (\<lambda>s. map iid (sp_index s)) (new_space draft_t_ab_unique_b_a) = Some [1, 2] \<and>
   sql_create_index env0 draft_t_ab_unique_b_a (Some [TK_ID ''A''])
     SQL_INDEX_TYPE_CONSTRAINT_PK None = Inr draft_t_ab_unique_b_a_pk \<and>
   \<not> is_aborted draft_t_ab_unique_b_a_pk \<and>
   map_option (\<lambda>s. map iid (sp_index s)) (new_space draft_t_ab_unique_b_a_pk) = Some [1, 0] \<and>
   map_option sql_space_primary_key (new_space draft_t_ab_unique_b_a_pk) = Some None \<and>
   sqlAddPrimaryKey env0 draft_t_ab_unique_b_a (Some [TK_ID ''A'']) None =
     Inl (AssertionFailed ''pk != NULL'')"
  by (simp add: draft_t_ab_unique_b_a_pk_def draft_t_ab_unique_b_a_def draft_t_ab_unique_b_def
        sample_defs index_defs cong: let_weak_cong)

lemma sqlCheckIdentifierName_cases:
  "sqlCheckIdentifierName env p n = (pa, rc) \<Longrightarrow> (rc = 0 \<and> pa = p) \<or> is_aborted pa"
  by (auto simp: sqlCheckIdentifierName_def abort_with_def split: if_splits option.splits)

lemma index_fill_parts_aborted:
  "index_fill_parts env p def cols = (p', r) \<Longrightarrow>
   (is_aborted p \<longrightarrow> is_aborted p') \<and> (r = None \<longrightarrow> is_aborted p')"
proof (induction cols arbitrary: p p' r)
  case Nil
  then show ?case by auto
next
  case (Cons e es)
  show ?case
  proof (cases "sql_resolve_self_reference p def e")
    case (Pair pa column)
    have a: "is_aborted p \<longrightarrow> is_aborted pa"
      using Pair
      by (auto simp: sql_resolve_self_reference_def abort_with_def
            split: Expr.splits option.splits)
    show ?thesis
    proof (cases "is_aborted pa")
      case True
      with Cons.prems Pair show ?thesis by simp
    next
      case na: False
      show ?thesis
      proof (cases column)
        case None
        with Cons.prems Pair na show ?thesis
          by (auto simp: abort_with_def)
      next
        case (Some fno)
        show ?thesis
        proof (cases "index_part_coll_id env pa def e fno")
          case (Pair pb c)
          have b: "(is_aborted pa \<longrightarrow> is_aborted pb) \<and> (c = None \<longrightarrow> is_aborted pb)"
            using Pair
            by (auto simp: index_part_coll_id_def sql_get_coll_seq_def abort_with_def
                  split: Expr.splits option.splits if_splits)
          show ?thesis
          proof (cases c)
            case None
            with Cons.prems \<open>sql_resolve_self_reference p def e = (pa, column)\<close> na Some Pair b
            show ?thesis by auto
          next
            case (Some cid)
            obtain pc r' where rest: "index_fill_parts env pb def es = (pc, r')"
              by (cases "index_fill_parts env pb def es")
            from Cons.IH [OF rest] have ih: "(is_aborted pb \<longrightarrow> is_aborted pc) \<and>
                (r' = None \<longrightarrow> is_aborted pc)" .
            from Cons.prems \<open>sql_resolve_self_reference p def e = (pa, column)\<close> na
              \<open>column = Some fno\<close> Pair Some rest
            have "p' = pc \<and> (r = None \<longleftrightarrow> r' = None)"
              by (auto simp: Let_def split: option.splits)
            with ih a b na show ?thesis by auto
          qed
        qed
      qed
    qed
  qed
qed

lemma index_fill_parts_same:
  "index_fill_parts env p def cols = (p', Some ps) \<Longrightarrow>
   index_fill_parts env q def cols = (q', Some qs) \<Longrightarrow> ps = qs"
proof (induction cols arbitrary: p p' ps q q' qs)
  case Nil
  then show ?case by simp
next
  case (Cons e es)
  from Cons.prems(1) obtain pa pb part ps' where
    p: "index_fill_parts env pa def es = (pb, Some ps')" "ps = part # ps'"
      "\<exists>fno cid. column_position def e = Some fno \<and>
         (case e of TK_COLLATE e' z \<Rightarrow> env_coll_by_name env z = Some cid
          | _ \<Rightarrow> cid = fd_coll_id (sd_fields def ! fno)) \<and>
         part = \<lparr>fieldno = fno, kp_type = fd_type (sd_fields def ! fno),
                 kp_nullable_action = fd_nullable_action (sd_fields def ! fno),
                 kp_is_nullable = (fd_nullable_action (sd_fields def ! fno) =
                                     ON_CONFLICT_ACTION_NONE),
                 kp_sort_order = SORT_ORDER_ASC, kp_coll_id = cid,
                 coll = env_coll_by_id env cid\<rparr>"
    by (auto simp: sql_resolve_self_reference_def column_position_def abort_with_def Let_def
          index_part_coll_id_def sql_get_coll_seq_def
          split: prod.splits option.splits Expr.splits if_splits)
  from Cons.prems(2) obtain qa qb qart qs' where
    q: "index_fill_parts env qa def es = (qb, Some qs')" "qs = qart # qs'"
      "\<exists>fno cid. column_position def e = Some fno \<and>
         (case e of TK_COLLATE e' z \<Rightarrow> env_coll_by_name env z = Some cid
          | _ \<Rightarrow> cid = fd_coll_id (sd_fields def ! fno)) \<and>
         qart = \<lparr>fieldno = fno, kp_type = fd_type (sd_fields def ! fno),
                 kp_nullable_action = fd_nullable_action (sd_fields def ! fno),
                 kp_is_nullable = (fd_nullable_action (sd_fields def ! fno) =
                                     ON_CONFLICT_ACTION_NONE),
                 kp_sort_order = SORT_ORDER_ASC, kp_coll_id = cid,
                 coll = env_coll_by_id env cid\<rparr>"
    by (auto simp: sql_resolve_self_reference_def column_position_def abort_with_def Let_def
          index_part_coll_id_def sql_get_coll_seq_def
          split: prod.splits option.splits Expr.splits if_splits)
  have "part = qart"
    using p(3) q(3) by (cases e) auto
  with Cons.IH [OF p(1) q(1)] p(2) q(2) show ?case by simp
qed

end
